theory Spec2Isabelle
  imports Main
begin

section \<open>JavaScript values and strings\<close>

text \<open>
  The library is TypeScript; most values that flow through it have type \<open>any\<close>.
  They are modelled by the datatype \<open>jsval\<close>. Numbers are integers (row identifiers,
  limits and offsets; no arithmetic is done on them by the code modelled here). An
  object lists its own enumerable properties in the order \<open>Object.keys\<close> reports them.
  Strings are lists of 8-bit characters, one per UTF-16 code unit below 256.
\<close>

datatype jsval =
    JUndefined
  | JNull
  | JBool bool
  | JNum int
  | JStr string
  | JArr "jsval list"
  | JObj "(string \<times> jsval) list"

text \<open>\<open>v == null\<close>: true for \<open>null\<close> and \<open>undefined\<close> only.\<close>

fun is_nullish :: "jsval \<Rightarrow> bool" where
  "is_nullish JUndefined = True"
| "is_nullish JNull = True"
| "is_nullish _ = False"

text \<open>The truthiness test of \<open>!v\<close>, \<open>if (v)\<close> and \<open>v || w\<close>.\<close>

fun js_truthy :: "jsval \<Rightarrow> bool" where
  "js_truthy JUndefined = False"
| "js_truthy JNull = False"
| "js_truthy (JBool b) = b"
| "js_truthy (JNum n) = (n \<noteq> 0)"
| "js_truthy (JStr s) = (s \<noteq> [])"
| "js_truthy (JArr xs) = True"
| "js_truthy (JObj kvs) = True"

definition charCodeAt :: "string \<Rightarrow> nat \<Rightarrow> nat" where
  "charCodeAt s j = of_char (s ! j)"

definition startsWith :: "string \<Rightarrow> string \<Rightarrow> bool" where
  "startsWith s p = (take (length p) s = p)"

text \<open>Decimal rendering of a non-negative integer, as \<open>String(n)\<close> gives it.\<close>

definition digit_char :: "nat \<Rightarrow> char" where
  "digit_char d = ''0123456789'' ! d"

function nat_to_string :: "nat \<Rightarrow> string" where
  "nat_to_string n =
     (if n < 10 then [digit_char n] else nat_to_string (n div 10) @ [digit_char (n mod 10)])"
  by pat_completeness auto
termination
  by (relation "measure (\<lambda>n. n)") auto

declare nat_to_string.simps [simp del]

definition int_to_string :: "int \<Rightarrow> string" where
  "int_to_string i = (if i < 0 then ''-'' @ nat_to_string (nat (- i)) else nat_to_string (nat i))"

text \<open>
  A plain object (\<open>{}\<close>) used as a dictionary also answers for the names it inherits
  from \<open>Object.prototype\<close>: \<open>obj['constructor']\<close> is a function, not \<open>undefined\<close>.
  A property read therefore has three outcomes.
\<close>

definition object_prototype_names :: "string list" where
  "object_prototype_names =
     [''constructor'', ''__defineGetter__'', ''__defineSetter__'', ''hasOwnProperty'',
      ''__lookupGetter__'', ''__lookupSetter__'', ''isPrototypeOf'', ''propertyIsEnumerable'',
      ''toString'', ''valueOf'', ''__proto__'', ''toLocaleString'']"

datatype 'a property = Own 'a | Inherited | Missing

definition object_get :: "(string \<times> 'a) list \<Rightarrow> string \<Rightarrow> 'a property" where
  "object_get obj k =
     (case map_of obj k of
        Some v \<Rightarrow> Own v
      | None \<Rightarrow> if k \<in> set object_prototype_names then Inherited else Missing)"

text \<open>
  \<open>obj[k] = v\<close> on a plain object and \<open>map.set(k, v)\<close> on a \<open>Map\<close>: an existing key
  keeps its place, a new key goes last.
\<close>

fun entries_set :: "(string \<times> 'a) list \<Rightarrow> string \<Rightarrow> 'a \<Rightarrow> (string \<times> 'a) list" where
  "entries_set [] k v = [(k, v)]"
| "entries_set ((k', v') # rest) k v =
     (if k' = k then (k, v) # rest else (k', v') # entries_set rest k v)"

definition entries_has :: "(string \<times> 'a) list \<Rightarrow> string \<Rightarrow> bool" where
  "entries_has m k = (map_of m k \<noteq> None)"

section \<open>helpers.ts\<close>

definition isAlphaCode :: "nat \<Rightarrow> bool" where
  "isAlphaCode ch = ((ch \<ge> 97 \<and> ch \<le> 122) \<or> (ch \<ge> 65 \<and> ch \<le> 90))"

definition isDigitCode :: "nat \<Rightarrow> bool" where
  "isDigitCode ch = (ch \<ge> 48 \<and> ch \<le> 57)"

section \<open>Names\<close>

definition ROWID :: string where
  "ROWID = ''rowid''"

definition CHAR_UNDERSCORE :: nat where
  "CHAR_UNDERSCORE = 95"

text \<open>The \<open>for\<close> loop of \<open>isValidName\<close>, from index \<open>j\<close> on.\<close>

function isValidName_loop :: "string \<Rightarrow> nat \<Rightarrow> bool" where
  "isValidName_loop name j =
     (if j < length name then
        (if \<not> (isAlphaCode (charCodeAt name j) \<or> isDigitCode (charCodeAt name j)
                \<or> charCodeAt name j = CHAR_UNDERSCORE)
         then False
         else isValidName_loop name (Suc j))
      else True)"
  by pat_completeness auto
termination
  by (relation "measure (\<lambda>(name, j). length name - j)") auto

declare isValidName_loop.simps [simp del]

definition isValidName :: "string \<Rightarrow> bool" where
  "isValidName name =
     (if length name = 0 \<or> \<not> isAlphaCode (charCodeAt name 0) then False
      else isValidName_loop name 1)"

text \<open>
  The identifier grammar in the words of the specification: a letter or an underscore
  first, then letters, digits and underscores.
\<close>

definition spec_body_char :: "char \<Rightarrow> bool" where
  "spec_body_char c = (isAlphaCode (of_char c) \<or> isDigitCode (of_char c) \<or> c = CHR ''_'')"

fun spec_identifier :: "string \<Rightarrow> bool" where
  "spec_identifier [] = False"
| "spec_identifier (c # cs) =
     ((isAlphaCode (of_char c) \<or> c = CHR ''_'') \<and> list_all spec_body_char cs)"

text \<open>The grammar the code implements: the first character is a letter.\<close>

fun letter_first_identifier :: "string \<Rightarrow> bool" where
  "letter_first_identifier [] = False"
| "letter_first_identifier (c # cs) = (isAlphaCode (of_char c) \<and> list_all spec_body_char cs)"

section \<open>Field specifications\<close>

datatype TypeHint = Text | Integer | Real | Blob | Boolean | Date

fun TypeHint_string :: "TypeHint \<Rightarrow> string" where
  "TypeHint_string Text = ''TEXT''"
| "TypeHint_string Integer = ''INTEGER''"
| "TypeHint_string Real = ''REAL''"
| "TypeHint_string Blob = ''BLOB''"
| "TypeHint_string Boolean = ''BOOLEAN''"
| "TypeHint_string Date = ''DATE''"

text \<open>An optional property that is absent is \<open>None\<close>.\<close>

record FieldSpec =
  validate :: "(jsval \<Rightarrow> bool) option"
  serialize :: "(jsval \<Rightarrow> jsval) option"
  deserialize :: "(jsval \<Rightarrow> jsval) option"
  typeHint :: "TypeHint option"
  allowNull :: "bool option"
  defaultValue :: "jsval option"
  newGenerate :: "(jsval \<Rightarrow> jsval) option"
  unique :: "bool option"
  primaryKey :: "bool option"
  collation :: "string option"

record FieldSpecWrapper =
  fieldName :: string
  fieldSpec :: FieldSpec

text \<open>The field spec \<open>{}\<close>.\<close>

definition emptyFieldSpec :: FieldSpec where
  "emptyFieldSpec = \<lparr>validate = None, serialize = None, deserialize = None, typeHint = None,
     allowNull = None, defaultValue = None, newGenerate = None, unique = None,
     primaryKey = None, collation = None\<rparr>"

datatype error =
    InvalidFieldName string
  | FieldAlreadyExists string
  | InvalidModelName string
  | ModelAlreadyDefined string
  | MultiplePrimaryKeys string
  | InvalidValue string
  | ModelMismatchError
  | InstanceInvalidError
  | UnexpectedOperator string
  | UnexpectedValue
  | ListExpected
  | InvalidOperator string
  | NoFieldNamed string
  | InvalidFieldNameValue string
  | InvalidForeignFieldName string
  | InvalidSortingProperty string
  | RemoveWithoutCriteria
  | ModelNotDefined string
  | InvalidRelationName string
  | RelationNameReserved string
  | NoConnection
  | TypeError

text \<open>\<open>FieldSpecWrapper.convertToDatabaseForm\<close>\<close>

definition convertToDatabaseForm :: "FieldSpecWrapper \<Rightarrow> jsval \<Rightarrow> error + jsval" where
  "convertToDatabaseForm fsw v =
     (if allowNull (fieldSpec fsw) \<noteq> Some False \<and> is_nullish v then Inr JNull
      else if (case validate (fieldSpec fsw) of None \<Rightarrow> False | Some f \<Rightarrow> \<not> f v)
        then Inl (InvalidValue (fieldName fsw))
      else Inr (case serialize (fieldSpec fsw) of None \<Rightarrow> v | Some f \<Rightarrow> f v))"

definition convertFromDatabaseForm :: "FieldSpecWrapper \<Rightarrow> jsval \<Rightarrow> jsval" where
  "convertFromDatabaseForm fsw v = (case deserialize (fieldSpec fsw) of Some f \<Rightarrow> f v | None \<Rightarrow> v)"

section \<open>Relations, models and the database registry\<close>

text \<open>
  Models are objects compared by identity (\<open>model !== this.model\<close>). A database owns the
  list \<open>_models\<close>, to which \<open>define\<close> only ever appends; a model is referred to by its
  position in that list. The references a program holds are those \<open>define\<close> returned,
  which are positions of the list.
\<close>

type_synonym model_ref = nat

datatype RelationType = OneToOne | ManyToOne | OneToMany | ManyToMany

text \<open>
  The three subclasses of \<open>RelationFieldData\<close>, with their constructor arguments in
  the source's order: name, type, model, companionModel, isLeft, and then the foreign
  key, or for the third the relation model and both foreign keys.
\<close>

datatype RelationFieldData =
    SingleRelationFieldData string RelationType model_ref model_ref bool string
  | ManyRelationFieldData string RelationType model_ref model_ref bool string
  | MultiRelationFieldData string RelationType model_ref model_ref bool model_ref string string

fun rel_name :: "RelationFieldData \<Rightarrow> string" where
  "rel_name (SingleRelationFieldData n t m c l fk) = n"
| "rel_name (ManyRelationFieldData n t m c l fk) = n"
| "rel_name (MultiRelationFieldData n t m c l r lfk rfk) = n"

fun rel_type :: "RelationFieldData \<Rightarrow> RelationType" where
  "rel_type (SingleRelationFieldData n t m c l fk) = t"
| "rel_type (ManyRelationFieldData n t m c l fk) = t"
| "rel_type (MultiRelationFieldData n t m c l r lfk rfk) = t"

fun rel_model :: "RelationFieldData \<Rightarrow> model_ref" where
  "rel_model (SingleRelationFieldData n t m c l fk) = m"
| "rel_model (ManyRelationFieldData n t m c l fk) = m"
| "rel_model (MultiRelationFieldData n t m c l r lfk rfk) = m"

fun rel_companionModel :: "RelationFieldData \<Rightarrow> model_ref" where
  "rel_companionModel (SingleRelationFieldData n t m c l fk) = c"
| "rel_companionModel (ManyRelationFieldData n t m c l fk) = c"
| "rel_companionModel (MultiRelationFieldData n t m c l r lfk rfk) = c"

fun rel_isLeft :: "RelationFieldData \<Rightarrow> bool" where
  "rel_isLeft (SingleRelationFieldData n t m c l fk) = l"
| "rel_isLeft (ManyRelationFieldData n t m c l fk) = l"
| "rel_isLeft (MultiRelationFieldData n t m c l r lfk rfk) = l"

text \<open>The argument each subclass passes to \<open>super(...)\<close>.\<close>

fun resultsInMany :: "RelationFieldData \<Rightarrow> bool" where
  "resultsInMany (SingleRelationFieldData n t m c l fk) = False"
| "resultsInMany (ManyRelationFieldData n t m c l fk) = True"
| "resultsInMany (MultiRelationFieldData n t m c l r lfk rfk) = True"

text \<open>\<open>SingleRelationFieldData.isCompanion\<close>, from the relation type and \<open>isLeft\<close>.\<close>

definition isCompanion :: "RelationType \<Rightarrow> bool \<Rightarrow> bool" where
  "isCompanion t l = (t = OneToOne \<and> \<not> l)"

datatype SortOrder = Asc | Desc

record SortProp =
  sort_by :: string
  sort_order :: "SortOrder option"
  caseSensitive :: "bool option"

record ModelOptions =
  createTimestamp :: bool
  updateTimestamp :: bool
  defaultSorting :: "SortProp option"

record Model =
  model_name :: string
  model_spec :: "(string \<times> FieldSpecWrapper) list"
  model_constraints :: "string list"
  model_options :: ModelOptions
  model_relationFields :: "RelationFieldData list"

definition model_fields :: "Model \<Rightarrow> FieldSpecWrapper list" where
  "model_fields m = map snd (model_spec m)"

text \<open>
  \<open>getFieldSpec\<close>: \<open>this._spec[fieldName] == null ? null : this._spec[fieldName].fieldSpec\<close>.
  For an inherited name the second read gives \<open>undefined\<close>, which callers test with
  \<open>== null\<close> like \<open>null\<close>.
\<close>

definition getFieldSpec :: "Model \<Rightarrow> string \<Rightarrow> FieldSpec option" where
  "getFieldSpec m fname =
     (case object_get (model_spec m) fname of Own w \<Rightarrow> Some (fieldSpec w) | _ \<Rightarrow> None)"

text \<open>
  \<open>getFieldWrapper\<close>: \<open>this._spec[name] || null\<close>. \<open>Missing\<close> stands for \<open>null\<close>;
  \<open>Inherited\<close> is a truthy member of \<open>Object.prototype\<close> that is not a wrapper.
\<close>

definition getFieldWrapper :: "Model \<Rightarrow> string \<Rightarrow> FieldSpecWrapper property" where
  "getFieldWrapper m n = object_get (model_spec m) n"

definition getFieldWrapperChecked :: "Model \<Rightarrow> string \<Rightarrow> error + FieldSpecWrapper property" where
  "getFieldWrapperChecked m n =
     (case getFieldWrapper m n of Missing \<Rightarrow> Inl (NoFieldNamed n) | fw \<Rightarrow> Inr fw)"

definition addField :: "Model \<Rightarrow> string \<Rightarrow> FieldSpec \<Rightarrow> error + Model" where
  "addField m fname fspec =
     (if \<not> isValidName fname then Inl (InvalidFieldName fname)
      else if object_get (model_spec m) fname \<noteq> Missing then Inl (FieldAlreadyExists fname)
      else Inr (m\<lparr>model_spec :=
                    entries_set (model_spec m) fname \<lparr>fieldName = fname, fieldSpec = fspec\<rparr>\<rparr>))"

definition getPrimaryKeyName :: "Model \<Rightarrow> string" where
  "getPrimaryKeyName m =
     (case find (\<lambda>fsw. primaryKey (fieldSpec fsw) = Some True) (model_fields m) of
        None \<Rightarrow> ROWID
      | Some primary \<Rightarrow> fieldName primary)"

definition getRelationFieldData :: "Model \<Rightarrow> string \<Rightarrow> RelationFieldData option" where
  "getRelationFieldData m n = find (\<lambda>x. rel_name x = n) (model_relationFields m)"

definition addConstraint :: "Model \<Rightarrow> string \<Rightarrow> Model" where
  "addConstraint m constr = m\<lparr>model_constraints := model_constraints m @ [constr]\<rparr>"

text \<open>The model constructor: default options, then one \<open>addField\<close> per key of the spec.\<close>

fun addFields :: "Model \<Rightarrow> (string \<times> FieldSpec) list \<Rightarrow> error + Model" where
  "addFields m [] = Inr m"
| "addFields m ((fname, fspec) # rest) =
     (case addField m fname fspec of Inl e \<Rightarrow> Inl e | Inr m' \<Rightarrow> addFields m' rest)"

definition new_Model :: "string \<Rightarrow> (string \<times> FieldSpec) list \<Rightarrow> error + Model" where
  "new_Model mname mspec =
     addFields \<lparr>model_name = mname, model_spec = [], model_constraints = [],
                model_options = \<lparr>createTimestamp = False, updateTimestamp = False,
                                  defaultSorting = None\<rparr>,
                model_relationFields = []\<rparr> mspec"

text \<open>
  What the database hands to its connection: the SQL text, the bindings given to
  \<open>prepare\<close>, and which of \<open>run\<close>, \<open>get\<close>, \<open>all\<close> or \<open>exec\<close> was called. The
  connection is an external collaborator; the model records the calls in order.
\<close>

datatype Bindings = NoBindings | Positional "jsval list" | Named "(string \<times> jsval) list"

datatype StatementCall = Run | Get | All | Exec

record Connection =
  statements :: "(string \<times> Bindings \<times> StatementCall) list"

record Database =
  db_connection :: "Connection option"
  db_models :: "Model list"
  db_schemaFlushed :: bool

definition the_model :: "Database \<Rightarrow> model_ref \<Rightarrow> Model" where
  "the_model db r = db_models db ! r"

definition getModel :: "Database \<Rightarrow> string \<Rightarrow> model_ref option" where
  "getModel db mname =
     (case filter (\<lambda>r. model_name (the_model db r) = mname) [0 ..< length (db_models db)] of
        [] \<Rightarrow> None
      | r # _ \<Rightarrow> Some r)"

text \<open>\<open>Database.define\<close> with the default model options; it returns the new model's reference.\<close>

definition Database_define :: "Database \<Rightarrow> string \<Rightarrow> (string \<times> FieldSpec) list \<Rightarrow> error + (Database \<times> model_ref)" where
  "Database_define db mname mspec =
     (if \<not> isValidName mname then Inl (InvalidModelName mname)
      else if getModel db mname \<noteq> None then Inl (ModelAlreadyDefined mname)
      else (case new_Model mname mspec of
              Inl e \<Rightarrow> Inl e
            | Inr m \<Rightarrow> Inr (db\<lparr>db_models := db_models db @ [m]\<rparr>, length (db_models db))))"

section \<open>Schema emission\<close>

fun join :: "string \<Rightarrow> string list \<Rightarrow> string" where
  "join sep [] = []"
| "join sep [x] = x"
| "join sep (x # y # ys) = x @ sep @ join sep (y # ys)"

text \<open>\<open>String(v)\<close>, and the conversion \<open>Array.prototype.join\<close> applies to an element.\<close>

fun js_toString :: "jsval \<Rightarrow> string" where
  "js_toString JUndefined = ''undefined''"
| "js_toString JNull = ''null''"
| "js_toString (JBool b) = (if b then ''true'' else ''false'')"
| "js_toString (JNum n) = int_to_string n"
| "js_toString (JStr s) = s"
| "js_toString (JArr xs) = join '','' (map (\<lambda>x. if is_nullish x then [] else js_toString x) xs)"
| "js_toString (JObj kvs) = ''[object Object]''"

definition join_element :: "jsval \<Rightarrow> string" where
  "join_element v = (if is_nullish v then [] else js_toString v)"

text \<open>
  The body of the inner loop of \<open>createSchema\<close> for one field. \<open>column_parts\<close> are
  the parts pushed before the \<open>DEFAULT\<close> clause; \<open>createSchema_column\<close> gives the
  column text and the updated count of primary keys, or the error thrown.
\<close>

definition column_parts :: "string \<Rightarrow> FieldSpec \<Rightarrow> string list" where
  "column_parts fname fs =
     [fname]
     @ (case typeHint fs of None \<Rightarrow> [] | Some t \<Rightarrow> [TypeHint_string t])
     @ (if primaryKey fs = Some True then [''PRIMARY KEY''] else [])
     @ (if unique fs = Some True then [''UNIQUE''] else [])
     @ (case collation fs of None \<Rightarrow> [] | Some c \<Rightarrow> [''COLLATE'', c])
     @ (if allowNull fs = Some False then [''NOT NULL''] else [])"

definition default_parts :: "FieldSpecWrapper \<Rightarrow> error + string list" where
  "default_parts specWrapper =
     (case defaultValue (fieldSpec specWrapper) of
        None \<Rightarrow> Inr []
      | Some d \<Rightarrow>
          if is_nullish d then Inr []
          else
            (case convertToDatabaseForm specWrapper d of
               Inl e \<Rightarrow> Inl e
             | Inr defValue \<Rightarrow>
                 Inr [''DEFAULT'',
                      (case defValue of
                         JStr s \<Rightarrow> [CHR 0x22] @ s @ [CHR 0x22]
                       | v \<Rightarrow> join_element v)]))"

definition createSchema_column ::
  "string \<Rightarrow> string \<Rightarrow> FieldSpecWrapper \<Rightarrow> nat \<Rightarrow> error + (string \<times> nat)" where
  "createSchema_column mname fname specWrapper primaryKeyCount =
     (if primaryKey (fieldSpec specWrapper) = Some True \<and> primaryKeyCount + 1 > 1
      then Inl (MultiplePrimaryKeys mname)
      else
        (case default_parts specWrapper of
           Inl e \<Rightarrow> Inl e
         | Inr dparts \<Rightarrow>
             Inr (join '' '' (column_parts fname (fieldSpec specWrapper) @ dparts),
                  if primaryKey (fieldSpec specWrapper) = Some True
                  then primaryKeyCount + 1 else primaryKeyCount)))"

fun createSchema_columns ::
  "string \<Rightarrow> (string \<times> FieldSpecWrapper) list \<Rightarrow> string list \<Rightarrow> nat \<Rightarrow> error + string list" where
  "createSchema_columns mname [] columns primaryKeyCount = Inr columns"
| "createSchema_columns mname ((fname, specWrapper) # rest) columns primaryKeyCount =
     (case createSchema_column mname fname specWrapper primaryKeyCount of
        Inl e \<Rightarrow> Inl e
      | Inr (col, primaryKeyCount') \<Rightarrow>
          createSchema_columns mname rest (columns @ [col]) primaryKeyCount')"

fun createSchema_tables :: "Model list \<Rightarrow> string list \<Rightarrow> error + string list" where
  "createSchema_tables [] schemaTables = Inr schemaTables"
| "createSchema_tables (m # rest) schemaTables =
     (case createSchema_columns (model_name m) (model_spec m) [] 0 of
        Inl e \<Rightarrow> Inl e
      | Inr columns \<Rightarrow>
          createSchema_tables rest
            (schemaTables @
              [''CREATE TABLE '' @ model_name m @ ''('' @
               join '', '' (columns @ model_constraints m) @ '')'']))"

definition createSchema :: "Database \<Rightarrow> error + string" where
  "createSchema db =
     (case createSchema_tables (db_models db) [] of
        Inl e \<Rightarrow> Inl e
      | Inr schemaTables \<Rightarrow> Inr (join ''; '' schemaTables))"

text \<open>The number of fields of a model flagged \<open>primaryKey: true\<close>.\<close>

definition primaryKeyFields :: "Model \<Rightarrow> nat" where
  "primaryKeyFields m =
     length (filter (\<lambda>fsw. primaryKey (fieldSpec fsw) = Some True) (model_fields m))"

section \<open>Relation definition\<close>

text \<open>
  \<open>updateField\<close>: a missing field is added; for an existing one every key present in
  the given spec overwrites the old value. For a name inherited from
  \<open>Object.prototype\<close> the old spec is \<open>undefined\<close> and the first assignment throws.
\<close>

definition merge_FieldSpec :: "FieldSpec \<Rightarrow> FieldSpec \<Rightarrow> FieldSpec" where
  "merge_FieldSpec old new =
     \<lparr>validate = (case validate new of None \<Rightarrow> validate old | Some x \<Rightarrow> Some x),
      serialize = (case serialize new of None \<Rightarrow> serialize old | Some x \<Rightarrow> Some x),
      deserialize = (case deserialize new of None \<Rightarrow> deserialize old | Some x \<Rightarrow> Some x),
      typeHint = (case typeHint new of None \<Rightarrow> typeHint old | Some x \<Rightarrow> Some x),
      allowNull = (case allowNull new of None \<Rightarrow> allowNull old | Some x \<Rightarrow> Some x),
      defaultValue = (case defaultValue new of None \<Rightarrow> defaultValue old | Some x \<Rightarrow> Some x),
      newGenerate = (case newGenerate new of None \<Rightarrow> newGenerate old | Some x \<Rightarrow> Some x),
      unique = (case unique new of None \<Rightarrow> unique old | Some x \<Rightarrow> Some x),
      primaryKey = (case primaryKey new of None \<Rightarrow> primaryKey old | Some x \<Rightarrow> Some x),
      collation = (case collation new of None \<Rightarrow> collation old | Some x \<Rightarrow> Some x)\<rparr>"

definition has_no_keys :: "FieldSpec \<Rightarrow> bool" where
  "has_no_keys fs =
     (validate fs = None \<and> serialize fs = None \<and> deserialize fs = None \<and> typeHint fs = None
      \<and> allowNull fs = None \<and> defaultValue fs = None \<and> newGenerate fs = None
      \<and> unique fs = None \<and> primaryKey fs = None \<and> collation fs = None)"

definition updateField :: "Model \<Rightarrow> string \<Rightarrow> FieldSpec \<Rightarrow> error + Model" where
  "updateField m fname fspec =
     (case object_get (model_spec m) fname of
        Missing \<Rightarrow> addField m fname fspec
      | Inherited \<Rightarrow> if has_no_keys fspec then Inr m else Inl TypeError
      | Own w \<Rightarrow>
          Inr (m\<lparr>model_spec :=
                   entries_set (model_spec m) fname
                     (w\<lparr>fieldSpec := merge_FieldSpec (fieldSpec w) fspec\<rparr>)\<rparr>))"

definition addForeignKeyConstraint :: "Model \<Rightarrow> string \<Rightarrow> string \<Rightarrow> string \<Rightarrow> Model" where
  "addForeignKeyConstraint m ownKey modelName foreignKeys =
     addConstraint m (''FOREIGN KEY ('' @ ownKey @ '') REFERENCES '' @ modelName @ ''(''
                      @ foreignKeys @ '') ON UPDATE CASCADE ON DELETE CASCADE'')"

definition addUniqueConstraint :: "Model \<Rightarrow> string list \<Rightarrow> Model" where
  "addUniqueConstraint m keys = addConstraint m (''UNIQUE('' @ join '', '' keys @ '')'')"

definition checkRelationFieldName :: "Model \<Rightarrow> string \<Rightarrow> error + unit" where
  "checkRelationFieldName m n =
     (if \<not> isValidName n then Inl (InvalidRelationName n)
      else if getFieldSpec m n \<noteq> None \<or> getRelationFieldData m n \<noteq> None
        then Inl (RelationNameReserved n)
      else Inr ())"

definition addRelationField :: "Model \<Rightarrow> RelationFieldData \<Rightarrow> error + Model" where
  "addRelationField m d =
     (case checkRelationFieldName m (rel_name d) of
        Inl e \<Rightarrow> Inl e
      | Inr _ \<Rightarrow> Inr (m\<lparr>model_relationFields := model_relationFields m @ [d]\<rparr>))"

record SingleRelationOptions =
  foreignKey :: "string option"
  companionField :: "string option"

text \<open>A string option that is present and not the empty string (\<open>if (field)\<close>).\<close>

fun truthy_string :: "string option \<Rightarrow> string option" where
  "truthy_string None = None"
| "truthy_string (Some s) = (if s = [] then None else Some s)"

definition set_model :: "Database \<Rightarrow> model_ref \<Rightarrow> Model \<Rightarrow> Database" where
  "set_model db r m = db\<lparr>db_models := (db_models db)[r := m]\<rparr>"

text \<open>
  \<open>isMany\<close> and the choice of constructor in \<open>_oneOrManyToOne\<close>.
\<close>

definition isMany :: "RelationType \<Rightarrow> bool \<Rightarrow> bool" where
  "isMany t isLeft = ((t = OneToMany \<and> isLeft) \<or> (t = ManyToOne \<and> \<not> isLeft))"

definition relation_ctor ::
  "bool \<Rightarrow> string \<Rightarrow> RelationType \<Rightarrow> model_ref \<Rightarrow> model_ref \<Rightarrow> bool \<Rightarrow> string \<Rightarrow> RelationFieldData" where
  "relation_ctor many n t m c l fk =
     (if many then ManyRelationFieldData n t m c l fk else SingleRelationFieldData n t m c l fk)"

text \<open>
  \<open>Model._oneOrManyToOne\<close>, on the model \<open>this\<close> of the database. The other model is
  given by reference or by name. A failure leaves the fields and constraints added
  before it in place in the source; the model returns the error alone.
\<close>

definition oneOrManyToOne ::
  "Database \<Rightarrow> model_ref \<Rightarrow> model_ref + string \<Rightarrow> string option \<Rightarrow> SingleRelationOptions option
     \<Rightarrow> RelationType \<Rightarrow> bool \<Rightarrow> error + Database" where
  "oneOrManyToOne db this otherModel field options t swapLeftRight =
     (case (case otherModel of
              Inl r \<Rightarrow> Some r
            | Inr mname \<Rightarrow> getModel db mname) of
        None \<Rightarrow> Inl (ModelNotDefined (case otherModel of Inr mname \<Rightarrow> mname | Inl _ \<Rightarrow> []))
      | Some other \<Rightarrow>
          (let uniq = (t = OneToOne);
               fk = (case truthy_string (case options of None \<Rightarrow> None | Some opts \<Rightarrow> foreignKey opts) of
                       Some k \<Rightarrow> k
                     | None \<Rightarrow> model_name (the_model db other) @ ''id'')
           in
             (case (if getFieldSpec (the_model db this) fk = None
                    then addField (the_model db this) fk
                           (emptyFieldSpec\<lparr>typeHint := Some Integer, unique := Some uniq\<rparr>)
                    else updateField (the_model db this) fk (emptyFieldSpec\<lparr>unique := Some uniq\<rparr>)) of
                Inl e \<Rightarrow> Inl e
              | Inr m1 \<Rightarrow>
                  (let db1 = set_model db this m1;
                       db2 = set_model db1 this
                               (addForeignKeyConstraint (the_model db1 this) fk
                                  (model_name (the_model db1 other))
                                  (getPrimaryKeyName (the_model db1 other)))
                   in
                     (case (case truthy_string field of
                              None \<Rightarrow> Inr db2
                            | Some f \<Rightarrow>
                                (case addRelationField (the_model db2 this)
                                        (relation_ctor (isMany t (\<not> swapLeftRight)) f t this other
                                           (\<not> swapLeftRight) fk) of
                                   Inl e \<Rightarrow> Inl e
                                 | Inr m3 \<Rightarrow> Inr (set_model db2 this m3))) of
                        Inl e \<Rightarrow> Inl e
                      | Inr db3 \<Rightarrow>
                          (case truthy_string (case options of None \<Rightarrow> None
                                               | Some opts \<Rightarrow> companionField opts) of
                             None \<Rightarrow> Inr db3
                           | Some cf \<Rightarrow>
                               (case addRelationField (the_model db3 other)
                                       (relation_ctor (isMany t swapLeftRight) cf t other this
                                          swapLeftRight fk) of
                                  Inl e \<Rightarrow> Inl e
                                | Inr m4 \<Rightarrow> Inr (set_model db3 other m4))))))))"

definition oneToOne ::
  "Database \<Rightarrow> model_ref \<Rightarrow> model_ref + string \<Rightarrow> string option \<Rightarrow> SingleRelationOptions option
     \<Rightarrow> error + Database" where
  "oneToOne db this otherModel field options =
     oneOrManyToOne db this otherModel field options OneToOne False"

definition manyToOne ::
  "Database \<Rightarrow> model_ref \<Rightarrow> model_ref + string \<Rightarrow> string option \<Rightarrow> SingleRelationOptions option
     \<Rightarrow> error + Database" where
  "manyToOne db this otherModel field options =
     oneOrManyToOne db this otherModel field options ManyToOne False"

definition oneToMany ::
  "Database \<Rightarrow> model_ref \<Rightarrow> model_ref + string \<Rightarrow> string option \<Rightarrow> SingleRelationOptions option
     \<Rightarrow> error + Database" where
  "oneToMany db this otherModel field options =
     (case (case otherModel of
              Inl r \<Rightarrow> Some r
            | Inr mname \<Rightarrow> getModel db mname) of
        None \<Rightarrow> Inl (ModelNotDefined (case otherModel of Inr mname \<Rightarrow> mname | Inl _ \<Rightarrow> []))
      | Some other \<Rightarrow>
          oneOrManyToOne db other (Inl this)
            (truthy_string (case options of None \<Rightarrow> None | Some opts \<Rightarrow> companionField opts))
            (Some \<lparr>foreignKey =
                      truthy_string (case options of None \<Rightarrow> None | Some opts \<Rightarrow> foreignKey opts),
                    companionField = field\<rparr>)
            OneToMany True)"

section \<open>Join conditions\<close>

definition myForeignKey :: "bool \<Rightarrow> string \<Rightarrow> string \<Rightarrow> string" where
  "myForeignKey isLeft leftForeignKey rightForeignKey =
     (if isLeft then leftForeignKey else rightForeignKey)"

definition otherForeignKey :: "bool \<Rightarrow> string \<Rightarrow> string \<Rightarrow> string" where
  "otherForeignKey isLeft leftForeignKey rightForeignKey =
     (if isLeft then rightForeignKey else leftForeignKey)"

fun getJoinCondition ::
  "Database \<Rightarrow> RelationFieldData \<Rightarrow> model_ref \<Rightarrow> string \<Rightarrow> model_ref \<Rightarrow> error + string" where
  "getJoinCondition db (SingleRelationFieldData n t m c l fk) model companionAlias joinModel =
     (if model \<noteq> m \<or> joinModel \<noteq> c then Inl ModelMismatchError
      else if \<not> isCompanion t l
        then Inr (companionAlias @ ''.'' @ getPrimaryKeyName (the_model db c) @ '' = ''
                  @ model_name (the_model db m) @ ''.'' @ fk)
        else Inr (companionAlias @ ''.'' @ fk @ '' = ''
                  @ model_name (the_model db m) @ ''.'' @ getPrimaryKeyName (the_model db m)))"
| "getJoinCondition db (ManyRelationFieldData n t m c l fk) model companionAlias joinModel =
     (if model \<noteq> m \<or> joinModel \<noteq> c then Inl ModelMismatchError
      else Inr (companionAlias @ ''.'' @ fk @ '' = ''
                @ model_name (the_model db m) @ ''.'' @ getPrimaryKeyName (the_model db m)))"
| "getJoinCondition db (MultiRelationFieldData n t m c l r lfk rfk) model companionAlias joinModel =
     (if joinModel \<noteq> r \<and> joinModel \<noteq> c then Inl ModelMismatchError
      else if model = m then
        (if joinModel = r
         then Inr (companionAlias @ ''.'' @ myForeignKey l lfk rfk @ '' = ''
                   @ model_name (the_model db m) @ ''.'' @ getPrimaryKeyName (the_model db m))
         else if joinModel = c
         then Inr (companionAlias @ ''.'' @ getPrimaryKeyName (the_model db c)
                   @ '' IN (SELECT '' @ otherForeignKey l lfk rfk @ '' FROM ''
                   @ model_name (the_model db r) @ '' WHERE '' @ myForeignKey l lfk rfk @ '' = ''
                   @ model_name (the_model db m) @ ''.'' @ getPrimaryKeyName (the_model db m)
                   @ '')'')
         else Inl ModelMismatchError)
      else if model = r \<and> joinModel = c
        then Inr (companionAlias @ ''.'' @ getPrimaryKeyName (the_model db c) @ '' = ''
                  @ model_name (the_model db r) @ ''.'' @ otherForeignKey l lfk rfk)
      else Inl ModelMismatchError)"

section \<open>Instances\<close>

text \<open>
  \<open>DatabaseInstance\<close>: the fields of \<open>$d\<close>. \<open>fields\<close> and \<open>relations\<close> are
  \<open>Map\<close>s, kept in insertion order. A relation accessor holds the instance it
  belongs to and the relation's data; the map stores the data.
\<close>

record DatabaseInstance =
  inst_model :: model_ref
  inst_fields :: "(string \<times> jsval) list"
  inst_created :: bool
  inst_rowId :: jsval
  inst_relations :: "(string \<times> RelationFieldData) list"

definition new_DatabaseInstance :: "model_ref \<Rightarrow> DatabaseInstance" where
  "new_DatabaseInstance r =
     \<lparr>inst_model = r, inst_fields = [], inst_created = False, inst_rowId = JNull,
      inst_relations = []\<rparr>"

text \<open>The setter of \<open>$rowId\<close>.\<close>

definition set_rowId :: "Database \<Rightarrow> DatabaseInstance \<Rightarrow> jsval \<Rightarrow> DatabaseInstance" where
  "set_rowId db inst v =
     (let pk = getPrimaryKeyName (the_model db (inst_model inst)) in
        if entries_has (inst_fields inst) pk
        then inst\<lparr>inst_rowId := v, inst_fields := entries_set (inst_fields inst) pk v\<rparr>
        else inst\<lparr>inst_rowId := v\<rparr>)"

text \<open>\<open>$get\<close> returns a field's value, a relation accessor, or \<open>undefined\<close>.\<close>

definition inst_get :: "DatabaseInstance \<Rightarrow> string \<Rightarrow> jsval + RelationFieldData" where
  "inst_get inst prop =
     (case map_of (inst_fields inst) prop of
        Some v \<Rightarrow> Inl v
      | None \<Rightarrow>
          (case map_of (inst_relations inst) prop of
             Some rel \<Rightarrow> Inr rel
           | None \<Rightarrow> Inl JUndefined))"

text \<open>
  \<open>$set\<close>. The field map is written before the model is asked for the field's
  wrapper, so the instance after the call is returned also when the call throws:
  for a name inherited from \<open>Object.prototype\<close>, \<open>getFieldWrapper\<close> returns a truthy
  value that has no \<open>fieldSpec\<close>, and reading \<open>fsw.fieldSpec.primaryKey\<close> is a
  \<open>TypeError\<close>.
\<close>

definition inst_set ::
  "Database \<Rightarrow> DatabaseInstance \<Rightarrow> string \<Rightarrow> jsval \<Rightarrow> (error + bool) \<times> DatabaseInstance" where
  "inst_set db inst prop v =
     (if entries_has (inst_relations inst) prop then (Inr False, inst)
      else
        (let inst1 = inst\<lparr>inst_fields := entries_set (inst_fields inst) prop v\<rparr> in
           (case getFieldWrapper (the_model db (inst_model inst)) prop of
              Missing \<Rightarrow> (Inr True, inst1)
            | Inherited \<Rightarrow> (Inl TypeError, inst1)
            | Own fsw \<Rightarrow>
                if primaryKey (fieldSpec fsw) = Some True
                then (Inr True, set_rowId db inst1 v)
                else (Inr True, inst1))))"

definition inst_has :: "DatabaseInstance \<Rightarrow> string \<Rightarrow> bool" where
  "inst_has inst prop = (entries_has (inst_fields inst) prop \<or> entries_has (inst_relations inst) prop)"

text \<open>\<open>Model._makeInstance\<close>: one accessor per relation of the model.\<close>

definition makeInstance :: "Database \<Rightarrow> DatabaseInstance \<Rightarrow> DatabaseInstance" where
  "makeInstance db inst =
     inst\<lparr>inst_relations :=
            fold (\<lambda>relation rels. entries_set rels (rel_name relation) relation)
              (model_relationFields (the_model db (inst_model inst))) (inst_relations inst)\<rparr>"

text \<open>
  \<open>Model.build\<close>. The template is read by own property: a declared field never has a
  name inherited from \<open>Object.prototype\<close>, since \<open>addField\<close> rejects those names.
\<close>

definition build_value :: "FieldSpecWrapper \<Rightarrow> (string \<times> jsval) list \<Rightarrow> jsval" where
  "build_value field template =
     (let given0 = (case map_of template (fieldName field) of None \<Rightarrow> JUndefined | Some v \<Rightarrow> v);
          given1 = (case newGenerate (fieldSpec field) of
                      Some g \<Rightarrow> if is_nullish given0 then g given0 else given0
                    | None \<Rightarrow> given0)
      in if is_nullish given1 then JNull else given1)"

definition build :: "Database \<Rightarrow> model_ref \<Rightarrow> (string \<times> jsval) list \<Rightarrow> DatabaseInstance" where
  "build db r template =
     makeInstance db
       (fold (\<lambda>field inst.
                inst\<lparr>inst_fields :=
                       entries_set (inst_fields inst) (fieldName field) (build_value field template)\<rparr>)
          (model_fields (the_model db r)) (new_DatabaseInstance r))"

section \<open>Relation accessors\<close>

definition ensureGood :: "DatabaseInstance \<Rightarrow> error + unit" where
  "ensureGood inst =
     (if is_nullish (inst_rowId inst) \<or> \<not> inst_created inst then Inl InstanceInvalidError
      else Inr ())"

text \<open>
  What \<open>DbSingleRelation.get\<close> resolves to: \<open>null\<close> at once, or the result of a query
  it delegates to the companion model.
\<close>

datatype single_get =
    ReturnNull
  | FindByPK model_ref "jsval + RelationFieldData"
  | FindOne model_ref "(string \<times> jsval) list"

text \<open>
  \<open>DbSingleRelation.get\<close>, for the accessor of an instance whose relation data has
  the given type, \<open>isLeft\<close>, companion model and foreign key. The test
  \<open>!this._inst.$rowId == null\<close> negates first and compares the boolean with \<open>null\<close>.
\<close>

definition DbSingleRelation_get ::
  "DatabaseInstance \<Rightarrow> RelationType \<Rightarrow> bool \<Rightarrow> model_ref \<Rightarrow> string \<Rightarrow> error + single_get" where
  "DbSingleRelation_get inst t isLeft companionModel fk =
     (case ensureGood inst of
        Inl e \<Rightarrow> Inl e
      | Inr _ \<Rightarrow>
          if \<not> isCompanion t isLeft then
            (case inst_get inst fk of
               Inl v \<Rightarrow>
                 if is_nullish v then Inr ReturnNull else Inr (FindByPK companionModel (Inl v))
             | Inr accessor \<Rightarrow> Inr (FindByPK companionModel (Inr accessor)))
          else if is_nullish (JBool (\<not> js_truthy (inst_rowId inst))) \<or> \<not> inst_created inst
            then Inr ReturnNull
          else Inr (FindOne companionModel [(fk, inst_rowId inst)]))"

section \<open>Bound parameters\<close>

text \<open>
  \<open>SqlBoundParams._bound\<close> is a plain object from placeholder name to value.
  \<open>uniqueName\<close> draws \<open>Math.floor(Math.random() * 100000)\<close>; the draw is an argument
  of the model.
\<close>

type_synonym SqlBoundParams = "(string \<times> jsval) list"

definition uniqueName :: "nat \<Rightarrow> string" where
  "uniqueName draw = ''uniq_'' @ nat_to_string draw"

definition bind :: "nat \<Rightarrow> jsval \<Rightarrow> SqlBoundParams \<Rightarrow> string \<times> SqlBoundParams" where
  "bind draw v bound = ('':'' @ uniqueName draw, entries_set bound (uniqueName draw) v)"





section \<open>The WHERE tree\<close>

datatype WhereTreeContext = Logical | Value

datatype WhereTreeOperator = And | Or

fun WhereTreeOperator_string :: "WhereTreeOperator \<Rightarrow> string" where
  "WhereTreeOperator_string And = '' AND ''"
| "WhereTreeOperator_string Or = '' OR ''"

text \<open>A node: context, operator, closest field, and the children (strings or nodes).\<close>

datatype WhereTree =
  WhereTree WhereTreeContext WhereTreeOperator string "(string + WhereTree) list"

fun tree_context :: "WhereTree \<Rightarrow> WhereTreeContext" where
  "tree_context (WhereTree c operator f children) = c"

fun closestField :: "WhereTree \<Rightarrow> string" where
  "closestField (WhereTree c operator f children) = f"

fun tree_append :: "WhereTree \<Rightarrow> string + WhereTree \<Rightarrow> WhereTree" where
  "tree_append (WhereTree c operator f children) child = WhereTree c operator f (children @ [child])"

fun WhereTree_build :: "WhereTree \<Rightarrow> string" where
  "WhereTree_build (WhereTree c operator f children) =
     (case map (\<lambda>x. case x of Inl s \<Rightarrow> s | Inr t \<Rightarrow> WhereTree_build t) children of
        [] \<Rightarrow> []
      | [child] \<Rightarrow> child
      | built \<Rightarrow> join (WhereTreeOperator_string operator) (map (\<lambda>x. ''('' @ x @ '')'') built))"

section \<open>The query builder\<close>

datatype JoinType = Inner | Left

fun JoinType_string :: "JoinType \<Rightarrow> string" where
  "JoinType_string Inner = ''INNER''"
| "JoinType_string Left = ''LEFT''"

record ParsedJoin =
  joinType :: JoinType
  sourceTable :: string
  selectWhere :: "string option"
  join_alias :: string
  condition :: string

definition ParsedJoin_make :: "ParsedJoin \<Rightarrow> string" where
  "ParsedJoin_make j =
     JoinType_string (joinType j) @ '' JOIN ''
     @ (case selectWhere j of
          None \<Rightarrow> sourceTable j
        | Some w \<Rightarrow> ''SELECT * FROM '' @ sourceTable j @ '' WHERE '' @ w)
     @ '' '' @ (if join_alias j \<noteq> [] then ''AS '' @ join_alias j else []) @ '' ON '' @ condition j"

text \<open>
  The state of one builder. \<open>qb_random\<close> is the sequence of values that
  \<open>Math.floor(Math.random() * 100000)\<close> takes from now on; a draw consumes its head.
\<close>

record QueryBuilder =
  qb_model :: model_ref
  qb_whereClause :: "(string \<times> jsval) list"
  qb_globalWhere :: WhereTree
  qb_constraints :: "string list option"
  qb_joins :: "ParsedJoin list option"
  qb_extraColumns :: "string list option"
  qb_bound :: SqlBoundParams
  qb_random :: "nat \<Rightarrow> nat"

definition new_QueryBuilder ::
  "(nat \<Rightarrow> nat) \<Rightarrow> model_ref \<Rightarrow> (string \<times> jsval) list option \<Rightarrow> QueryBuilder" where
  "new_QueryBuilder random model whereClause =
     \<lparr>qb_model = model,
      qb_whereClause = (case whereClause of None \<Rightarrow> [] | Some w \<Rightarrow> w),
      qb_globalWhere = WhereTree Logical And [] [],
      qb_constraints = None, qb_joins = None, qb_extraColumns = None,
      qb_bound = [], qb_random = random\<rparr>"

text \<open>\<open>this._bound.bind(value)\<close> inside a builder.\<close>

definition qb_bind :: "QueryBuilder \<Rightarrow> jsval \<Rightarrow> string \<times> QueryBuilder" where
  "qb_bind qb v =
     (case bind (qb_random qb 0) v (qb_bound qb) of
        (placeholder, bound') \<Rightarrow>
          (placeholder, qb\<lparr>qb_bound := bound', qb_random := (\<lambda>i. qb_random qb (Suc i))\<rparr>))"

definition addJoin :: "QueryBuilder \<Rightarrow> ParsedJoin \<Rightarrow> QueryBuilder" where
  "addJoin qb jd =
     qb\<lparr>qb_joins := (case qb_joins qb of None \<Rightarrow> Some [jd] | Some js \<Rightarrow> Some (js @ [jd]))\<rparr>"

definition addConstraintQ :: "QueryBuilder \<Rightarrow> string \<Rightarrow> QueryBuilder" where
  "addConstraintQ qb constr =
     qb\<lparr>qb_constraints :=
          (case qb_constraints qb of None \<Rightarrow> Some [constr] | Some cs \<Rightarrow> Some (cs @ [constr]))\<rparr>"

definition addExtraColumns :: "QueryBuilder \<Rightarrow> string list \<Rightarrow> QueryBuilder" where
  "addExtraColumns qb col =
     qb\<lparr>qb_extraColumns :=
          (case qb_extraColumns qb of None \<Rightarrow> Some col | Some cs \<Rightarrow> Some (cs @ col))\<rparr>"

text \<open>
  Case mapping on 8-bit characters: the letters of ASCII and of Latin-1. The three
  characters whose upper case is not a single 8-bit character (0xB5, 0xDF, 0xFF) are
  left alone by \<open>toUpperCase\<close>; it is only used to test for the prefix \<open>GROUP BY\<close>,
  which they cannot produce.
\<close>

definition upper_letters :: string where
  "upper_letters =
     ''ABCDEFGHIJKLMNOPQRSTUVWXYZ'' @
       [CHR 0xC0, CHR 0xC1, CHR 0xC2, CHR 0xC3, CHR 0xC4, CHR 0xC5, CHR 0xC6, CHR 0xC7,
        CHR 0xC8, CHR 0xC9, CHR 0xCA, CHR 0xCB, CHR 0xCC, CHR 0xCD, CHR 0xCE, CHR 0xCF,
        CHR 0xD0, CHR 0xD1, CHR 0xD2, CHR 0xD3, CHR 0xD4, CHR 0xD5, CHR 0xD6, CHR 0xD8,
        CHR 0xD9, CHR 0xDA, CHR 0xDB, CHR 0xDC, CHR 0xDD, CHR 0xDE]"

definition lower_letters :: string where
  "lower_letters =
     ''abcdefghijklmnopqrstuvwxyz'' @
       [CHR 0xE0, CHR 0xE1, CHR 0xE2, CHR 0xE3, CHR 0xE4, CHR 0xE5, CHR 0xE6, CHR 0xE7,
        CHR 0xE8, CHR 0xE9, CHR 0xEA, CHR 0xEB, CHR 0xEC, CHR 0xED, CHR 0xEE, CHR 0xEF,
        CHR 0xF0, CHR 0xF1, CHR 0xF2, CHR 0xF3, CHR 0xF4, CHR 0xF5, CHR 0xF6, CHR 0xF8,
        CHR 0xF9, CHR 0xFA, CHR 0xFB, CHR 0xFC, CHR 0xFD, CHR 0xFE]"

definition toLowerCase_char :: "char \<Rightarrow> char" where
  "toLowerCase_char c = (case map_of (zip upper_letters lower_letters) c of Some l \<Rightarrow> l | None \<Rightarrow> c)"

definition toLowerCase :: "string \<Rightarrow> string" where
  "toLowerCase s = map toLowerCase_char s"

definition toUpperCase_char :: "char \<Rightarrow> char" where
  "toUpperCase_char c = (case map_of (zip lower_letters upper_letters) c of Some u \<Rightarrow> u | None \<Rightarrow> c)"

definition toUpperCase :: "string \<Rightarrow> string" where
  "toUpperCase s = map toUpperCase_char s"

fun indexOf :: "string \<Rightarrow> char \<Rightarrow> nat option" where
  "indexOf [] c = None"
| "indexOf (x # xs) c =
     (if x = c then Some 0 else (case indexOf xs c of None \<Rightarrow> None | Some i \<Rightarrow> Some (Suc i)))"

fun rel_relationModel :: "RelationFieldData \<Rightarrow> model_ref option" where
  "rel_relationModel (SingleRelationFieldData n t m c l fk) = None"
| "rel_relationModel (ManyRelationFieldData n t m c l fk) = None"
| "rel_relationModel (MultiRelationFieldData n t m c l r lfk rfk) = Some r"

text \<open>
  The field and the model \<open>_attachColumn\<close> settles on for \<open>relation$field\<close>: the
  companion's field, or for a many-to-many relation the relation model's.
\<close>

definition related_field ::
  "Database \<Rightarrow> RelationFieldData \<Rightarrow> string \<Rightarrow> string
     \<Rightarrow> error + (FieldSpecWrapper property \<times> model_ref)" where
  "related_field db relation relatedFieldName fname =
     (case getFieldWrapper (the_model db (rel_companionModel relation)) relatedFieldName of
        Missing \<Rightarrow>
          if rel_type relation = ManyToMany then
            (case rel_relationModel relation of
               None \<Rightarrow> Inl TypeError
             | Some r \<Rightarrow>
                 (case getFieldWrapper (the_model db r) relatedFieldName of
                    Missing \<Rightarrow> Inl (InvalidForeignFieldName fname)
                  | field \<Rightarrow> Inr (field, r)))
          else Inl (InvalidForeignFieldName fname)
      | field \<Rightarrow> Inr (field, rel_companionModel relation))"

definition attachColumn ::
  "Database \<Rightarrow> QueryBuilder \<Rightarrow> string
     \<Rightarrow> error + (QueryBuilder \<times> FieldSpecWrapper property \<times> string)" where
  "attachColumn db qb fname =
     (case indexOf fname (CHR ''$'') of
        None \<Rightarrow>
          (case getFieldWrapperChecked (the_model db (qb_model qb)) fname of
             Inl e \<Rightarrow> Inl e
           | Inr fsw \<Rightarrow> Inr (qb, fsw, model_name (the_model db (qb_model qb)) @ ''.'' @ fname))
      | Some sindex \<Rightarrow>
          if sindex = 0 then Inl (InvalidFieldNameValue fname)
          else
            (let relationName = take sindex fname;
                 relatedFieldName = drop (sindex + 1) fname
             in
               if relationName = [] \<or> relatedFieldName = [] then Inl (InvalidFieldNameValue fname)
               else
                 (case getRelationFieldData (the_model db (qb_model qb)) relationName of
                    None \<Rightarrow> Inl (InvalidForeignFieldName fname)
                  | Some relation \<Rightarrow>
                      (case related_field db relation relatedFieldName fname of
                         Inl e \<Rightarrow> Inl e
                       | Inr (field, relatedModel) \<Rightarrow>
                           (let table = ''__sa_'' @ model_name (the_model db relatedModel) in
                              if (case qb_joins qb of
                                    None \<Rightarrow> True
                                  | Some js \<Rightarrow> \<not> list_ex (\<lambda>x. join_alias x = table) js)
                              then
                                (case getJoinCondition db relation (qb_model qb) table relatedModel of
                                   Inl e \<Rightarrow> Inl e
                                 | Inr cond \<Rightarrow>
                                     (let qb1 = addJoin qb
                                                  \<lparr>joinType = Left,
                                                   sourceTable = model_name (the_model db relatedModel),
                                                   selectWhere = None, join_alias = table,
                                                   condition = cond\<rparr>;
                                          qb2 =
                                            (if resultsInMany relation \<and>
                                                (case qb_constraints qb1 of
                                                   None \<Rightarrow> True
                                                 | Some cs \<Rightarrow>
                                                     \<not> list_ex (\<lambda>x. startsWith (toUpperCase x) ''GROUP BY'') cs)
                                             then addConstraintQ qb1
                                                    (''GROUP BY '' @ model_name (the_model db (qb_model qb))
                                                     @ ''.'' @ getPrimaryKeyName (the_model db (qb_model qb)))
                                             else qb1)
                                      in Inr (qb2, field, table @ ''.'' @ relatedFieldName)))
                              else Inr (qb, field, table @ ''.'' @ relatedFieldName))))))"

text \<open>
  \<open>fieldData.fsw.convertToDatabaseForm(x)\<close>: a \<open>TypeError\<close> when the wrapper is a member
  of \<open>Object.prototype\<close>.
\<close>

definition fsw_convert :: "FieldSpecWrapper property \<Rightarrow> jsval \<Rightarrow> error + jsval" where
  "fsw_convert fsw v = (case fsw of Own w \<Rightarrow> convertToDatabaseForm w v | _ \<Rightarrow> Inl TypeError)"

definition buildMappedOperator ::
  "Database \<Rightarrow> QueryBuilder \<Rightarrow> string \<Rightarrow> string \<Rightarrow> jsval \<Rightarrow> WhereTree
     \<Rightarrow> error + (QueryBuilder \<times> WhereTree)" where
  "buildMappedOperator db qb operator left right parentNode =
     (case attachColumn db qb left of
        Inl e \<Rightarrow> Inl e
      | Inr (qb1, fsw, column) \<Rightarrow>
          (case fsw_convert fsw right of
             Inl e \<Rightarrow> Inl e
           | Inr rightConv \<Rightarrow>
               (case qb_bind qb1 rightConv of
                  (placeholder, qb2) \<Rightarrow>
                    Inr (qb2, tree_append parentNode (Inl (column @ '' '' @ operator @ '' '' @ placeholder))))))"

definition mappedOperators :: "(string \<times> string) list" where
  "mappedOperators =
     [(''$eq'', ''=''), (''$like'', ''LIKE''), (''$gt'', ''>''), (''$lt'', ''<''),
      (''$gte'', ''>=''), (''$lte'', ''<=''), (''$ne'', ''<>''), (''$glob'', ''GLOB'')]"

text \<open>\<open>right.length\<close> and \<open>right[0]\<close> for a value of type \<open>any\<close>.\<close>

fun js_length :: "jsval \<Rightarrow> error + jsval" where
  "js_length JUndefined = Inl TypeError"
| "js_length JNull = Inl TypeError"
| "js_length (JArr xs) = Inr (JNum (int (length xs)))"
| "js_length (JStr s) = Inr (JNum (int (length s)))"
| "js_length (JObj kvs) = Inr (case map_of kvs ''length'' of None \<Rightarrow> JUndefined | Some v \<Rightarrow> v)"
| "js_length _ = Inr JUndefined"

fun js_first :: "jsval \<Rightarrow> jsval" where
  "js_first (JArr xs) = (case xs of [] \<Rightarrow> JUndefined | x # _ \<Rightarrow> x)"
| "js_first (JStr s) = (case s of [] \<Rightarrow> JUndefined | c # _ \<Rightarrow> JStr [c])"
| "js_first (JObj kvs) = (case map_of kvs ''0'' of None \<Rightarrow> JUndefined | Some v \<Rightarrow> v)"
| "js_first _ = JUndefined"

text \<open>The \<open>map\<close> over the list of an \<open>$in\<close>: convert and bind each element in turn.\<close>

fun bind_list ::
  "QueryBuilder \<Rightarrow> FieldSpecWrapper property \<Rightarrow> jsval list \<Rightarrow> string list
     \<Rightarrow> error + (QueryBuilder \<times> string list)" where
  "bind_list qb fsw [] acc = Inr (qb, acc)"
| "bind_list qb fsw (x # xs) acc =
     (case fsw_convert fsw x of
        Inl e \<Rightarrow> Inl e
      | Inr conv \<Rightarrow>
          (case qb_bind qb conv of (placeholder, qb') \<Rightarrow> bind_list qb' fsw xs (acc @ [placeholder])))"

definition buildOperator ::
  "Database \<Rightarrow> QueryBuilder \<Rightarrow> string \<Rightarrow> string \<Rightarrow> jsval \<Rightarrow> WhereTree
     \<Rightarrow> error + (QueryBuilder \<times> WhereTree)" where
  "buildOperator db qb operator left right parentNode =
     (case map_of mappedOperators operator of
        Some mapped \<Rightarrow> buildMappedOperator db qb mapped left right parentNode
      | None \<Rightarrow>
          if operator = ''$in'' \<or> operator = ''$notin'' then
            (case js_length right of
               Inl e \<Rightarrow> Inl e
             | Inr len \<Rightarrow>
                 if \<not> js_truthy len then Inl ListExpected
                 else if len = JNum 1 then
                   buildMappedOperator db qb
                     (case map_of mappedOperators (if operator = ''$in'' then ''$eq'' else ''$ne'') of
                        Some mapped \<Rightarrow> mapped | None \<Rightarrow> ''undefined'')
                     left (js_first right) parentNode
                 else
                   (case attachColumn db qb left of
                      Inl e \<Rightarrow> Inl e
                    | Inr (qb1, fsw, column) \<Rightarrow>
                        (case right of
                           JArr xs \<Rightarrow>
                             (case bind_list qb1 fsw xs [] of
                                Inl e \<Rightarrow> Inl e
                              | Inr (qb2, list) \<Rightarrow>
                                  Inr (qb2,
                                       tree_append parentNode
                                         (Inl (column @ '' ''
                                               @ (if operator = ''$in'' then ''IN'' else ''NOT IN'')
                                               @ '' ('' @ join '', '' list @ '')''))))
                         | _ \<Rightarrow> Inl TypeError)))
          else Inl (InvalidOperator operator))"

text \<open>
  \<open>Object.keys(value)\<close> with the values \<open>value[key]\<close>: the properties of an object, the
  indices of an array or of a string, nothing for a number or a boolean, and a
  \<open>TypeError\<close> for \<open>null\<close> and \<open>undefined\<close>.
\<close>

definition indexed :: "jsval list \<Rightarrow> (string \<times> jsval) list" where
  "indexed xs = zip (map nat_to_string [0 ..< length xs]) xs"

fun object_entries :: "jsval \<Rightarrow> error + (string \<times> jsval) list" where
  "object_entries JUndefined = Inl TypeError"
| "object_entries JNull = Inl TypeError"
| "object_entries (JObj kvs) = Inr kvs"
| "object_entries (JArr xs) = Inr (indexed xs)"
| "object_entries (JStr s) = Inr (indexed (map (\<lambda>c. JStr [c]) s))"
| "object_entries _ = Inr []"

text \<open>\<open>typeof value === 'object' && value != null\<close>\<close>

fun is_object :: "jsval \<Rightarrow> bool" where
  "is_object (JObj kvs) = True"
| "is_object (JArr xs) = True"
| "is_object _ = False"

subsection \<open>Termination of the recursion over a criteria object\<close>

text \<open>
  A call recurses only into the entries of an object, an array or (under \<open>$and\<close> or
  \<open>$or\<close>) a string; an index key never starts with \<open>$\<close>.
\<close>

definition node_measure :: "string \<times> jsval \<Rightarrow> nat" where
  "node_measure p = (if startsWith (fst p) ''$'' \<or> is_object (snd p) then Suc (size (snd p)) else 0)"

lemma size_entry: "(k, v) \<in> set kvs \<Longrightarrow> size v < size (JObj kvs)"
  by (induction kvs) auto

lemma size_elem: "v \<in> set xs \<Longrightarrow> size v < size (JArr xs)"
  by (induction xs) auto

lemma nat_to_string_digit: "nat_to_string n \<noteq> [] \<and> hd (nat_to_string n) \<in> set ''0123456789''"
proof (induction n rule: nat_to_string.induct)
  case (1 n)
  show ?case
  proof (cases "n < 10")
    case True
    have "n \<in> {0,1,2,3,4,5,6,7,8,9}" using True by auto
    then show ?thesis
      by (subst nat_to_string.simps, subst (2) nat_to_string.simps) (auto simp: digit_char_def)
  next
    case False
    then show ?thesis using 1
      by (subst nat_to_string.simps, subst (2) nat_to_string.simps) auto
  qed
qed

lemma nat_to_string_no_dollar: "\<not> startsWith (nat_to_string n) ''$''"
  using nat_to_string_digit [of n] by (cases "nat_to_string n") (auto simp: startsWith_def)

lemma indexed_keys:
  assumes "(k, v) \<in> set (indexed xs)"
  shows "\<not> startsWith k ''$'' \<and> v \<in> set xs"
proof -
  from assms have "k \<in> set (map nat_to_string [0 ..< length xs])" and v: "v \<in> set xs"
    unfolding indexed_def by (auto dest: set_zip_leftD set_zip_rightD)
  then obtain j where "k = nat_to_string j" by auto
  then show ?thesis using v by (simp add: nat_to_string_no_dollar)
qed

lemma entries_measure:
  "object_entries v = Inr entries \<Longrightarrow> (k, x) \<in> set entries \<Longrightarrow>
     startsWith key ''$'' \<or> is_object v \<Longrightarrow> node_measure (k, x) < node_measure (key, v)"
proof (cases v)
  case (JObj kvs)
  assume "object_entries v = Inr entries" "(k, x) \<in> set entries"
  then show ?thesis using JObj size_entry [of k x kvs] by (auto simp: node_measure_def)
next
  case (JArr xs)
  assume "object_entries v = Inr entries" "(k, x) \<in> set entries"
  then show ?thesis using JArr size_elem [of x xs] indexed_keys [of k x xs]
    by (auto simp: node_measure_def)
next
  case (JStr s)
  assume "object_entries v = Inr entries" "(k, x) \<in> set entries" "startsWith key ''$'' \<or> is_object v"
  then show ?thesis using JStr indexed_keys [of k x "map (\<lambda>c. JStr [c]) s"]
    by (auto simp: node_measure_def)
qed (auto simp: node_measure_def)

text \<open>
  \<open>_buildWhereNode\<close>. The source appends to the parent node in place; the model returns
  the builder and the parent node after the call. The loops over \<open>Object.keys(value)\<close>
  are folds that stop at the first error.
\<close>

function buildWhereNode ::
  "Database \<Rightarrow> QueryBuilder \<Rightarrow> string \<Rightarrow> jsval \<Rightarrow> WhereTree \<Rightarrow> error + (QueryBuilder \<times> WhereTree)" where
  "buildWhereNode db qb key v parentNode =
     (if startsWith key ''$'' then
        (if tree_context parentNode = Logical then
           (if toLowerCase key = ''$and'' \<or> toLowerCase key = ''$or'' then
              (case object_entries v of
                 Inl e \<Rightarrow> Inl e
               | Inr entries \<Rightarrow>
                   (case foldl (\<lambda>acc (subKey, subValue).
                                  case acc of
                                    Inl e \<Rightarrow> Inl e
                                  | Inr (qb', node) \<Rightarrow> buildWhereNode db qb' subKey subValue node)
                           (Inr (qb, WhereTree Logical
                                       (if toLowerCase key = ''$and'' then And else Or) [] []))
                           entries of
                      Inl e \<Rightarrow> Inl e
                    | Inr (qb', node) \<Rightarrow> Inr (qb', tree_append parentNode (Inr node))))
            else Inl (UnexpectedOperator (toLowerCase key)))
         else buildOperator db qb (toLowerCase (toLowerCase key)) (closestField parentNode) v parentNode)
      else
        (if tree_context parentNode = Logical then
           (if is_object v then
              (case object_entries v of
                 Inl e \<Rightarrow> Inl e
               | Inr entries \<Rightarrow>
                   (case foldl (\<lambda>acc (subKey, subValue).
                                  case acc of
                                    Inl e \<Rightarrow> Inl e
                                  | Inr (qb', node) \<Rightarrow> buildWhereNode db qb' subKey subValue node)
                           (Inr (qb, WhereTree Value And key []))
                           entries of
                      Inl e \<Rightarrow> Inl e
                    | Inr (qb', node) \<Rightarrow> Inr (qb', tree_append parentNode (Inr node))))
            else buildMappedOperator db qb ''='' key v parentNode)
         else Inl UnexpectedValue))"
  by pat_completeness auto
termination
proof (relation "measure (\<lambda>(db, qb, key, v, parentNode). node_measure (key, v))")
  show "wf (measure (\<lambda>(db, qb, key, v, parentNode). node_measure (key, v)))" by simp
qed (auto simp: entries_measure)

declare buildWhereNode.simps [simp del]

subsection \<open>Shared parts of the builders\<close>

definition buildWhere :: "Database \<Rightarrow> QueryBuilder \<Rightarrow> error + QueryBuilder" where
  "buildWhere db qb =
     foldl (\<lambda>acc (key, v).
              case acc of
                Inl e \<Rightarrow> Inl e
              | Inr qb' \<Rightarrow>
                  (case buildWhereNode db qb' key v (qb_globalWhere qb') of
                     Inl e \<Rightarrow> Inl e
                   | Inr (qb'', node) \<Rightarrow> Inr (qb''\<lparr>qb_globalWhere := node\<rparr>)))
       (Inr qb) (qb_whereClause qb)"

definition makeWhere :: "QueryBuilder \<Rightarrow> string" where
  "makeWhere qb =
     (if WhereTree_build (qb_globalWhere qb) \<noteq> [] then ''WHERE '' @ WhereTree_build (qb_globalWhere qb)
      else [])"

definition makeJoins :: "QueryBuilder \<Rightarrow> string" where
  "makeJoins qb = (case qb_joins qb of None \<Rightarrow> [] | Some js \<Rightarrow> join '' '' (map ParsedJoin_make js))"

definition makeColumnListForModel :: "Model \<Rightarrow> string \<Rightarrow> string list" where
  "makeColumnListForModel m prefix =
     map (\<lambda>fsw. if prefix \<noteq> []
                 then (prefix @ ''.'' @ fieldName fsw) @ '' AS '' @ [CHR 0x22]
                      @ (prefix @ ''.'' @ fieldName fsw) @ [CHR 0x22]
                 else fieldName fsw)
       (model_fields m)
     @ (if find (\<lambda>x. primaryKey (fieldSpec x) = Some True) (model_fields m) = None
        then [(model_name m @ ''.'' @ ROWID) @ '' AS '' @ [CHR 0x22]
              @ (model_name m @ ''.'' @ ROWID) @ [CHR 0x22]]
        else [])"

definition makeSort :: "string \<Rightarrow> SortOrder option \<Rightarrow> bool option \<Rightarrow> string" where
  "makeSort sby ord cs =
     sby @ '' '' @ (if cs = Some True then [] else ''COLLATE NOCASE'') @ '' ''
     @ (if ord = Some Desc then ''DESC'' else ''ASC'')"

section \<open>UPDATE and DELETE\<close>

record UpdateOptions =
  uo_where :: "(string \<times> jsval) list option"
  uo_set :: "(string \<times> jsval) list"

record RemoveOptions =
  ro_where :: "(string \<times> jsval) list option"

record BuiltQuery =
  query :: string
  bound :: SqlBoundParams

text \<open>The \<open>map\<close> that renders the SET clause, one column at a time.\<close>

fun set_clauses ::
  "Database \<Rightarrow> QueryBuilder \<Rightarrow> (string \<times> jsval) list \<Rightarrow> string list
     \<Rightarrow> error + (QueryBuilder \<times> string list)" where
  "set_clauses db qb [] acc = Inr (qb, acc)"
| "set_clauses db qb ((col, v) # rest) acc =
     (case getFieldWrapperChecked (the_model db (qb_model qb)) col of
        Inl e \<Rightarrow> Inl e
      | Inr fsw \<Rightarrow>
          (case fsw_convert fsw v of
             Inl e \<Rightarrow> Inl e
           | Inr conv \<Rightarrow>
               (case qb_bind qb conv of
                  (placeholder, qb') \<Rightarrow>
                    set_clauses db qb' rest (acc @ [col @ '' = '' @ placeholder]))))"

definition buildUpdate ::
  "Database \<Rightarrow> (nat \<Rightarrow> nat) \<Rightarrow> model_ref \<Rightarrow> UpdateOptions \<Rightarrow> error + BuiltQuery" where
  "buildUpdate db random model options =
     (case buildWhere db (new_QueryBuilder random model (uo_where options)) of
        Inl e \<Rightarrow> Inl e
      | Inr qb \<Rightarrow>
          if length (uo_set options) = 0 then Inr \<lparr>query = [], bound = qb_bound qb\<rparr>
          else
            (case set_clauses db qb (uo_set options) [] of
               Inl e \<Rightarrow> Inl e
             | Inr (qb', clauses) \<Rightarrow>
                 (let setClause = join '', '' clauses;
                      whereClause = makeWhere qb';
                      m = the_model db model;
                      pk = getPrimaryKeyName m
                  in
                    Inr \<lparr>query =
                           (if qb_joins qb' \<noteq> None \<or> qb_constraints qb' \<noteq> None
                            then ''UPDATE '' @ model_name m @ '' SET '' @ setClause @ '' WHERE '' @ pk
                                 @ '' IN (SELECT '' @ model_name m @ ''.'' @ pk @ '' FROM ''
                                 @ model_name m @ '' '' @ makeJoins qb' @ '' '' @ whereClause @ '')''
                            else ''UPDATE '' @ model_name m @ '' SET '' @ setClause @ '' ''
                                 @ whereClause),
                         bound = qb_bound qb'\<rparr>)))"

text \<open>
  \<open>_buildRemove\<close>. The guard is \<open>!this._whereClause || this._whereClause.length === 0\<close>;
  \<open>_whereClause\<close> is an object (\<open>{}\<close> when no criteria were given), so the first test
  never holds, and the second reads the property \<open>length\<close> of the criteria object.
\<close>

definition buildRemove ::
  "Database \<Rightarrow> (nat \<Rightarrow> nat) \<Rightarrow> model_ref \<Rightarrow> RemoveOptions \<Rightarrow> error + BuiltQuery" where
  "buildRemove db random model options =
     (if \<not> js_truthy (JObj (qb_whereClause (new_QueryBuilder random model (ro_where options))))
         \<or> map_of (qb_whereClause (new_QueryBuilder random model (ro_where options))) ''length''
             = Some (JNum 0)
      then Inl RemoveWithoutCriteria
      else
        (case buildWhere db (new_QueryBuilder random model (ro_where options)) of
           Inl e \<Rightarrow> Inl e
         | Inr qb \<Rightarrow>
             (let whereClause = makeWhere qb;
                  m = the_model db model;
                  pk = getPrimaryKeyName m
              in
                Inr \<lparr>query =
                       (if qb_joins qb \<noteq> None \<or> qb_constraints qb \<noteq> None
                        then ''DELETE FROM '' @ model_name m @ '' WHERE '' @ pk
                             @ '' IN (SELECT '' @ model_name m @ ''.'' @ pk @ '' FROM ''
                             @ model_name m @ '' '' @ makeJoins qb @ '' '' @ whereClause @ '')''
                        else ''DELETE FROM '' @ model_name m @ '' '' @ whereClause),
                     bound = qb_bound qb\<rparr>)))"

section \<open>Database operations\<close>

text \<open>
  \<open>_run\<close>: \<open>_prepare\<close> fails without a connection; otherwise the statement is handed to
  the connection and run. The database after the call is returned with the outcome.
\<close>

definition run :: "Database \<Rightarrow> string \<Rightarrow> Bindings \<Rightarrow> (error + unit) \<times> Database" where
  "run db sql bindings =
     (case db_connection db of
        None \<Rightarrow> (Inl NoConnection, db)
      | Some conn \<Rightarrow>
          (Inr (),
           db\<lparr>db_connection := Some (conn\<lparr>statements := statements conn @ [(sql, bindings, Run)]\<rparr>)\<rparr>))"

definition Database_update ::
  "Database \<Rightarrow> (nat \<Rightarrow> nat) \<Rightarrow> model_ref \<Rightarrow> UpdateOptions \<Rightarrow> (error + unit) \<times> Database" where
  "Database_update db random model options =
     (case buildUpdate db random model options of
        Inl e \<Rightarrow> (Inl e, db)
      | Inr q \<Rightarrow> if query q = [] then (Inr (), db) else run db (query q) (Named (bound q)))"

definition Database_remove ::
  "Database \<Rightarrow> (nat \<Rightarrow> nat) \<Rightarrow> model_ref \<Rightarrow> RemoveOptions \<Rightarrow> (error + unit) \<times> Database" where
  "Database_remove db random model options =
     (case buildRemove db random model options of
        Inl e \<Rightarrow> (Inl e, db)
      | Inr q \<Rightarrow> if query q = [] then (Inr (), db) else run db (query q) (Named (bound q)))"

definition Database_removeAll :: "Database \<Rightarrow> model_ref \<Rightarrow> (error + unit) \<times> Database" where
  "Database_removeAll db model = run db (''DELETE FROM '' @ model_name (the_model db model)) NoBindings"

section \<open>SELECT\<close>

text \<open>A join option names a relation accessor; the builder reads its relation data.\<close>

record JoinOption =
  jo_relation :: RelationFieldData
  jo_type :: JoinType

record FindOptions =
  fo_where :: "(string \<times> jsval) list option"
  fo_limit :: "int option"
  fo_offset :: "int option"
  fo_fetchTotalCount :: "bool option"
  fo_sort :: "(string + SortProp) list option"
  fo_join :: "JoinOption list option"

record BuiltSelectQuery =
  selectQuery :: string
  select_bound :: SqlBoundParams
  countQuery :: "string option"

definition buildConstraints :: "QueryBuilder \<Rightarrow> FindOptions \<Rightarrow> QueryBuilder" where
  "buildConstraints qb options =
     (let qb1 = (case fo_limit options of
                   None \<Rightarrow> qb
                 | Some n \<Rightarrow> addConstraintQ qb (''LIMIT '' @ int_to_string n))
      in (case fo_offset options of
            None \<Rightarrow> qb1
          | Some n \<Rightarrow> addConstraintQ qb1 (''OFFSET '' @ int_to_string n)))"

text \<open>The first loop of \<open>_buildSort\<close>: one part per explicit sort entry.\<close>

fun sort_parts :: "Model \<Rightarrow> (string + SortProp) list \<Rightarrow> string list \<Rightarrow> error + string list" where
  "sort_parts m [] acc = Inr acc"
| "sort_parts m (Inl sortProp # rest) acc =
     (if getFieldSpec m sortProp = None then Inl (InvalidSortingProperty sortProp)
      else sort_parts m rest (acc @ [makeSort sortProp (Some Asc) (Some False)]))"
| "sort_parts m (Inr sortProp # rest) acc =
     (if getFieldSpec m (sort_by sortProp) = None then Inl (InvalidSortingProperty (sort_by sortProp))
      else sort_parts m rest
             (acc @ [makeSort (sort_by sortProp) (sort_order sortProp) (caseSensitive sortProp)]))"

definition sort_entry_by :: "string + SortProp \<Rightarrow> string" where
  "sort_entry_by x = (case x of Inl s \<Rightarrow> s | Inr p \<Rightarrow> sort_by p)"

definition buildSort :: "Database \<Rightarrow> QueryBuilder \<Rightarrow> FindOptions \<Rightarrow> error + QueryBuilder" where
  "buildSort db qb options =
     (let m = the_model db (qb_model qb);
          defSorting = defaultSorting (model_options m)
      in
        (case (case fo_sort options of
                 None \<Rightarrow> Inr []
               | Some srt \<Rightarrow>
                   if length srt > 0 then
                     (case sort_parts m srt [] of
                        Inl e \<Rightarrow> Inl e
                      | Inr parts \<Rightarrow>
                          (case defSorting of
                             None \<Rightarrow> Inr parts
                           | Some d \<Rightarrow>
                               if \<not> list_ex (\<lambda>x. sort_entry_by x = sort_by d) srt then
                                 (if getFieldSpec m (sort_by d) = None
                                  then Inl (InvalidSortingProperty (sort_by d))
                                  else Inr (parts @ [makeSort (sort_by d) (sort_order d) (caseSensitive d)]))
                               else Inr parts))
                   else Inr []) of
           Inl e \<Rightarrow> Inl e
         | Inr parts \<Rightarrow>
             (let sortParts =
                    (case defSorting of
                       Some d \<Rightarrow>
                         if length parts = 0
                         then parts @ [makeSort (sort_by d) (sort_order d) (caseSensitive d)]
                         else parts
                     | None \<Rightarrow> parts)
              in if length sortParts > 0
                 then Inr (addConstraintQ qb (''ORDER BY '' @ join '', '' sortParts))
                 else Inr qb)))"

fun buildJoins_loop :: "Database \<Rightarrow> QueryBuilder \<Rightarrow> JoinOption list \<Rightarrow> error + QueryBuilder" where
  "buildJoins_loop db qb [] = Inr qb"
| "buildJoins_loop db qb (joinOption # rest) =
     (case getJoinCondition db (jo_relation joinOption) (qb_model qb)
             (rel_name (jo_relation joinOption)) (rel_companionModel (jo_relation joinOption)) of
        Inl e \<Rightarrow> Inl e
      | Inr cond \<Rightarrow>
          buildJoins_loop db
            (addExtraColumns
               (addJoin qb
                  \<lparr>joinType = jo_type joinOption,
                   sourceTable = model_name (the_model db (rel_companionModel (jo_relation joinOption))),
                   selectWhere = None,
                   join_alias = rel_name (jo_relation joinOption),
                   condition = cond\<rparr>)
               (makeColumnListForModel (the_model db (rel_companionModel (jo_relation joinOption)))
                  (rel_name (jo_relation joinOption))))
            rest)"

definition buildJoins :: "Database \<Rightarrow> QueryBuilder \<Rightarrow> FindOptions \<Rightarrow> error + QueryBuilder" where
  "buildJoins db qb options =
     (case fo_join options of None \<Rightarrow> Inr qb | Some js \<Rightarrow> buildJoins_loop db qb js)"

text \<open>
  The two statements \<open>_buildSelect\<close> assembles from the finished builder. The count
  query keeps every constraint that does not start with \<open>LIMIT\<close>.
\<close>

definition select_text :: "Database \<Rightarrow> QueryBuilder \<Rightarrow> string" where
  "select_text db qb =
     ''SELECT ''
     @ join '', '' (makeColumnListForModel (the_model db (qb_model qb))
                      (model_name (the_model db (qb_model qb)))
                    @ (case qb_extraColumns qb of None \<Rightarrow> [] | Some cs \<Rightarrow> cs))
     @ '' FROM '' @ model_name (the_model db (qb_model qb)) @ '' '' @ makeJoins qb @ '' ''
     @ makeWhere qb @ '' ''
     @ (case qb_constraints qb of None \<Rightarrow> [] | Some cs \<Rightarrow> join '' '' cs)"

definition countConstraints :: "QueryBuilder \<Rightarrow> string" where
  "countConstraints qb =
     (case qb_constraints qb of
        None \<Rightarrow> []
      | Some cs \<Rightarrow> join '' '' (filter (\<lambda>constr. \<not> startsWith constr ''LIMIT'') cs))"

definition count_text :: "Database \<Rightarrow> QueryBuilder \<Rightarrow> string" where
  "count_text db qb =
     ''SELECT COUNT(*) FROM '' @ model_name (the_model db (qb_model qb)) @ '' '' @ makeJoins qb
     @ '' '' @ makeWhere qb @ '' '' @ countConstraints qb"

text \<open>The builder after the four build steps of \<open>_buildSelect\<close>.\<close>

definition select_builder ::
  "Database \<Rightarrow> (nat \<Rightarrow> nat) \<Rightarrow> model_ref \<Rightarrow> FindOptions \<Rightarrow> error + QueryBuilder" where
  "select_builder db random model options =
     (case buildWhere db (new_QueryBuilder random model (fo_where options)) of
        Inl e \<Rightarrow> Inl e
      | Inr qb1 \<Rightarrow>
          (case buildSort db (buildConstraints qb1 options) options of
             Inl e \<Rightarrow> Inl e
           | Inr qb3 \<Rightarrow> buildJoins db qb3 options))"

definition buildSelect ::
  "Database \<Rightarrow> (nat \<Rightarrow> nat) \<Rightarrow> model_ref \<Rightarrow> FindOptions \<Rightarrow> error + BuiltSelectQuery" where
  "buildSelect db random model options =
     (case select_builder db random model options of
        Inl e \<Rightarrow> Inl e
      | Inr qb \<Rightarrow>
          Inr \<lparr>selectQuery = select_text db qb,
               select_bound = qb_bound qb,
               countQuery = (if fo_fetchTotalCount options = Some True
                             then Some (count_text db qb) else None)\<rparr>)"

text \<open>The number of primary-flagged entries of a spec object.\<close>

definition primaryKeyEntries :: "(string \<times> FieldSpecWrapper) list \<Rightarrow> nat" where
  "primaryKeyEntries fs =
     length (filter (\<lambda>fsw. primaryKey (fieldSpec fsw) = Some True) (map snd fs))"

text \<open>\<open>this._constraints\<close> read as a list (\<open>null\<close> is no constraint).\<close>

definition constraint_list :: "QueryBuilder \<Rightarrow> string list" where
  "constraint_list qb = (case qb_constraints qb of None \<Rightarrow> [] | Some cs \<Rightarrow> cs)"

section \<open>Auxiliary notions for the proofs\<close>

text \<open>
  A result with the builder's \<open>_whereClause\<close> replaced; the loop over the entries of a
  criteria object, with the function it calls as a parameter; and the part of
  \<open>_buildSelect\<close> that follows the compilation of a single criterion.
\<close>

definition lift_where ::
  "(string \<times> jsval) list \<Rightarrow> error + (QueryBuilder \<times> 'a) \<Rightarrow> error + (QueryBuilder \<times> 'a)" where
  "lift_where w r = (case r of Inl e \<Rightarrow> Inl e | Inr (q, x) \<Rightarrow> Inr (q\<lparr>qb_whereClause := w\<rparr>, x))"

definition fold_entries ::
  "(QueryBuilder \<Rightarrow> string \<Rightarrow> jsval \<Rightarrow> WhereTree \<Rightarrow> error + (QueryBuilder \<times> WhereTree))
     \<Rightarrow> error + (QueryBuilder \<times> WhereTree) \<Rightarrow> (string \<times> jsval) list
     \<Rightarrow> error + (QueryBuilder \<times> WhereTree)" where
  "fold_entries f start entries =
     foldl (\<lambda>acc (subKey, subValue).
              case acc of Inl e \<Rightarrow> Inl e | Inr (qb', node) \<Rightarrow> f qb' subKey subValue node)
       start entries"

definition select_of_node ::
  "Database \<Rightarrow> FindOptions \<Rightarrow> error + (QueryBuilder \<times> WhereTree) \<Rightarrow> error + BuiltSelectQuery" where
  "select_of_node db options r =
     (case r of
        Inl e \<Rightarrow> Inl e
      | Inr (q, node) \<Rightarrow>
          (case (case buildSort db (buildConstraints (q\<lparr>qb_globalWhere := node\<rparr>) options) options of
                   Inl e \<Rightarrow> Inl e
                 | Inr qb3 \<Rightarrow> buildJoins db qb3 options) of
             Inl e \<Rightarrow> Inl e
           | Inr qb \<Rightarrow>
               Inr \<lparr>selectQuery = select_text db qb, select_bound = qb_bound qb,
                    countQuery = (if fo_fetchTotalCount options = Some True
                                  then Some (count_text db qb) else None)\<rparr>))"

section \<open>Example inputs\<close>

text \<open>
  The model of the repository's first test:
  \<open>db.define('foo', { id: { typeHint: TypeHint.Integer, primaryKey: true } })\<close>.
\<close>

definition emptyDatabase :: Database where
  "emptyDatabase = \<lparr>db_connection = None, db_models = [], db_schemaFlushed = False\<rparr>"

definition fooModel :: Model where
  "fooModel = \<lparr>model_name = ''foo'',
     model_spec = [(''id'', \<lparr>fieldName = ''id'',
        fieldSpec = emptyFieldSpec\<lparr>typeHint := Some Integer, primaryKey := Some True\<rparr>\<rparr>)],
     model_constraints = [],
     model_options = \<lparr>createTimestamp = False, updateTimestamp = False, defaultSorting = None\<rparr>,
     model_relationFields = []\<rparr>"

text \<open>\<open>fooModel\<close> after \<open>addField('other', { primaryKey: true })\<close>.\<close>

definition twoKeyModel :: Model where
  "twoKeyModel = fooModel\<lparr>model_spec := model_spec fooModel @
     [(''other'', \<lparr>fieldName = ''other'', fieldSpec = emptyFieldSpec\<lparr>primaryKey := Some True\<rparr>\<rparr>)]\<rparr>"

text \<open>
  The models of the repository's one-to-one tests:
  \<open>foo = db.define('foo', { id: { primaryKey: true }, title: {} })\<close>,
  \<open>bar = db.define('bar', { id: { primaryKey: true }, name: {} })\<close>, and then
  \<open>foo.oneToOne(bar, 'bar', { companionField: 'foo' })\<close>. \<open>foo\<close> is model 0 and
  \<open>bar\<close> is model 1.
\<close>

definition defaultModelOptions :: ModelOptions where
  "defaultModelOptions = \<lparr>createTimestamp = False, updateTimestamp = False, defaultSorting = None\<rparr>"

definition wrapper :: "string \<Rightarrow> FieldSpec \<Rightarrow> string \<times> FieldSpecWrapper" where
  "wrapper n fs = (n, \<lparr>fieldName = n, fieldSpec = fs\<rparr>)"

definition fooBar_foo_relation :: RelationFieldData where
  "fooBar_foo_relation = SingleRelationFieldData ''bar'' OneToOne 0 1 True ''barid''"

definition fooBar_bar_relation :: RelationFieldData where
  "fooBar_bar_relation = SingleRelationFieldData ''foo'' OneToOne 1 0 False ''barid''"

definition fooBarDatabase :: Database where
  "fooBarDatabase =
     \<lparr>db_connection = None,
      db_models =
        [\<lparr>model_name = ''foo'',
          model_spec = [wrapper ''id'' (emptyFieldSpec\<lparr>primaryKey := Some True\<rparr>),
                        wrapper ''title'' emptyFieldSpec,
                        wrapper ''barid'' (emptyFieldSpec\<lparr>typeHint := Some Integer,
                                                          unique := Some True\<rparr>)],
          model_constraints =
            [''FOREIGN KEY (barid) REFERENCES bar(id) ON UPDATE CASCADE ON DELETE CASCADE''],
          model_options = defaultModelOptions,
          model_relationFields = [fooBar_foo_relation]\<rparr>,
         \<lparr>model_name = ''bar'',
          model_spec = [wrapper ''id'' (emptyFieldSpec\<lparr>primaryKey := Some True\<rparr>),
                        wrapper ''name'' emptyFieldSpec],
          model_constraints = [],
          model_options = defaultModelOptions,
          model_relationFields = [fooBar_bar_relation]\<rparr>],
      db_schemaFlushed = False\<rparr>"

text \<open>
  An instance of \<open>bar\<close> as \<open>buildFromDatabaseResult\<close> leaves it for the row
  \<open>{ id: 10, name: 'king' }\<close>: created, with row identifier 10.
\<close>

definition bar10 :: DatabaseInstance where
  "bar10 = \<lparr>inst_model = 1, inst_fields = [(''id'', JNum 10), (''name'', JStr ''king'')],
            inst_created = True, inst_rowId = JNum 10,
            inst_relations = [(''foo'', fooBar_bar_relation)]\<rparr>"

text \<open>The same database with an open connection that has run no statement yet.\<close>

definition connectedFooBar :: Database where
  "connectedFooBar = fooBarDatabase\<lparr>db_connection := Some \<lparr>statements = []\<rparr>\<rparr>"

definition noFindOptions :: FindOptions where
  "noFindOptions = \<lparr>fo_where = None, fo_limit = None, fo_offset = None,
                     fo_fetchTotalCount = None, fo_sort = None, fo_join = None\<rparr>"

text \<open>A fresh builder on \<open>foo\<close>; the random draws are 7, 8, 9, ...\<close>

definition titleBuilder :: QueryBuilder where
  "titleBuilder = new_QueryBuilder (\<lambda>i. 7 + i) 0 None"

section \<open>Properties: names\<close>

lemma underscore_code: "(of_char c = (95::nat)) = (c = CHR ''_'')"
proof -
  have "(of_char c = (95::nat)) = (of_char c = (of_char (CHR ''_'') :: nat))" by simp
  then show ?thesis by (simp only: of_char_eq_iff)
qed

lemma isValidName_loop_drop:
  "isValidName_loop name j = list_all spec_body_char (drop j name)"
proof (induction name j rule: isValidName_loop.induct)
  case (1 name j)
  show ?case
  proof (cases "j < length name")
    case True
    then have d: "drop j name = name ! j # drop (Suc j) name"
      by (simp add: Cons_nth_drop_Suc)
    show ?thesis
    proof (cases "spec_body_char (name ! j)")
      case ok: True
      then have "isValidName_loop name j = isValidName_loop name (Suc j)"
        using True
        by (subst isValidName_loop.simps)
           (simp add: spec_body_char_def charCodeAt_def CHAR_UNDERSCORE_def underscore_code)
      also have "\<dots> = list_all spec_body_char (drop (Suc j) name)"
      proof -
        have c: "\<not> \<not> (isAlphaCode (charCodeAt name j) \<or> isDigitCode (charCodeAt name j)
                  \<or> charCodeAt name j = CHAR_UNDERSCORE)"
          using ok
          by (simp add: spec_body_char_def charCodeAt_def CHAR_UNDERSCORE_def underscore_code)
        show ?thesis by (rule 1 [OF True c])
      qed
      finally show ?thesis using ok d by simp
    next
      case bad: False
      then have "isValidName_loop name j = False"
        using True
        by (subst isValidName_loop.simps)
           (simp add: spec_body_char_def charCodeAt_def CHAR_UNDERSCORE_def underscore_code)
      then show ?thesis using bad d by simp
    qed
  next
    case False
    then show ?thesis
      by (subst isValidName_loop.simps) simp
  qed
qed

lemma isValidName_grammar: "isValidName name = letter_first_identifier name"
proof (cases name)
  case Nil
  then show ?thesis by (simp add: isValidName_def)
next
  case (Cons c cs)
  then show ?thesis
    by (simp add: isValidName_def isValidName_loop_drop charCodeAt_def)
qed

lemma addFields_not_model_name: "addFields m xs \<noteq> Inl (InvalidModelName n)"
  by (induction xs arbitrary: m) (auto simp: addField_def split: sum.splits if_splits)

lemma define_foo:
  "Database_define emptyDatabase ''foo''
     [(''id'', emptyFieldSpec\<lparr>typeHint := Some Integer, primaryKey := Some True\<rparr>)]
   = Inr (emptyDatabase\<lparr>db_models := [fooModel]\<rparr>, 0)"
  by (simp add: Database_define_def emptyDatabase_def getModel_def new_Model_def addField_def
      fooModel_def isValidName_grammar isAlphaCode_def spec_body_char_def object_get_def
      object_prototype_names_def)

text \<open>
  C5 (as the claim states it, refuted). The specification's grammar admits a leading
  underscore; \<open>isValidName\<close> does not, and \<open>addField\<close> rejects the very name the
  repository's test "should throw when field name is invalid" uses.
\<close>

theorem name_grammar_underscore_counterexample:
  "spec_identifier ''_someColumn'' \<and> \<not> isValidName ''_someColumn''
   \<and> addField fooModel ''_someColumn'' (emptyFieldSpec\<lparr>typeHint := Some Text\<rparr>)
       = Inl (InvalidFieldName ''_someColumn'')"
  by (simp add: addField_def isValidName_grammar isAlphaCode_def isDigitCode_def spec_body_char_def)

text \<open>
  C5 (amended). A name is valid exactly when it is a letter followed by letters, digits
  and underscores; \<open>addField\<close> fails with the invalid-field-name error, and
  \<open>Database.define\<close> with the invalid-model-name error, exactly for the names outside
  this grammar.
\<close>

theorem name_grammar_is_letter_first:
  "isValidName name = letter_first_identifier name
   \<and> (addField m name fspec = Inl (InvalidFieldName name)) = (\<not> letter_first_identifier name)
   \<and> (Database_define db name mspec = Inl (InvalidModelName name))
       = (\<not> letter_first_identifier name)"
proof -
  have a: "(addField m name fspec = Inl (InvalidFieldName name)) = (\<not> isValidName name)"
    by (simp add: addField_def)
  have b: "(Database_define db name mspec = Inl (InvalidModelName name)) = (\<not> isValidName name)"
    using addFields_not_model_name
    by (auto simp: Database_define_def new_Model_def split: sum.splits)
  show ?thesis using a b by (simp add: isValidName_grammar)
qed

theorem name_grammar_is_letter_first_witness:
  "isValidName ''someColumn'' \<and> letter_first_identifier ''someColumn''
   \<and> addField fooModel ''someColumn'' (emptyFieldSpec\<lparr>typeHint := Some Text\<rparr>)
       \<noteq> Inl (InvalidFieldName ''someColumn'')
   \<and> addField fooModel ''1x'' emptyFieldSpec = Inl (InvalidFieldName ''1x'')"
  using name_grammar_is_letter_first [of "''someColumn''" fooModel "emptyFieldSpec\<lparr>typeHint := Some Text\<rparr>"]
        name_grammar_is_letter_first [of "''1x''" fooModel emptyFieldSpec]
  by (simp add: isAlphaCode_def isDigitCode_def spec_body_char_def)

section \<open>Properties: schema emission\<close>

lemmas name_eval = isValidName_grammar isAlphaCode_def isDigitCode_def spec_body_char_def
  object_get_def object_prototype_names_def

lemma default_parts_error: "default_parts w = Inl e \<Longrightarrow> e = InvalidValue (fieldName w)"
  by (auto simp: default_parts_def convertToDatabaseForm_def split: if_splits option.splits sum.splits)

lemma column_count:
  "createSchema_column mname fname w k = Inr (col, k') \<Longrightarrow>
     k' = (if primaryKey (fieldSpec w) = Some True then k + 1 else k) \<and> (k \<le> 1 \<longrightarrow> k' \<le> 1)"
  by (auto simp: createSchema_column_def split: if_splits sum.splits)

lemma column_not_multiple:
  "\<not> (primaryKey (fieldSpec w) = Some True \<and> k \<ge> 1) \<Longrightarrow>
     createSchema_column mname fname w k \<noteq> Inl (MultiplePrimaryKeys n)"
  by (auto simp: createSchema_column_def dest: default_parts_error split: if_splits sum.splits)

lemma columns_fail:
  "k \<le> 1 \<Longrightarrow> k + primaryKeyEntries fs > 1 \<Longrightarrow> \<exists>e. createSchema_columns mname fs cols k = Inl e"
proof (induction fs arbitrary: cols k)
  case Nil
  then show ?case by (simp add: primaryKeyEntries_def)
next
  case (Cons a fs)
  obtain fname w where a: "a = (fname, w)" by (cases a)
  show ?case
  proof (cases "createSchema_column mname fname w k")
    case (Inl e)
    then show ?thesis using a by simp
  next
    case (Inr r)
    obtain col k' where r: "r = (col, k')" by (cases r)
    from column_count [of mname fname w k col k'] Inr r
    have k': "k' = (if primaryKey (fieldSpec w) = Some True then k + 1 else k)" "k' \<le> 1"
      using Cons.prems(1) by auto
    have "k' + primaryKeyEntries fs > 1" using Cons.prems k' a by (auto simp: primaryKeyEntries_def split: if_splits)
    from Cons.IH [OF k'(2) this] show ?thesis using a Inr r by simp
  qed
qed

lemma columns_ok:
  "k + primaryKeyEntries fs \<le> 1 \<Longrightarrow> createSchema_columns mname fs cols k \<noteq> Inl (MultiplePrimaryKeys n)"
proof (induction fs arbitrary: cols k)
  case Nil
  then show ?case by simp
next
  case (Cons a fs)
  obtain fname w where a: "a = (fname, w)" by (cases a)
  have nm: "createSchema_column mname fname w k \<noteq> Inl (MultiplePrimaryKeys n)"
    using Cons.prems a by (intro column_not_multiple) (auto simp: primaryKeyEntries_def split: if_splits)
  show ?case
  proof (cases "createSchema_column mname fname w k")
    case (Inl e)
    then show ?thesis using a nm by simp
  next
    case (Inr r)
    obtain col k' where r: "r = (col, k')" by (cases r)
    from column_count [of mname fname w k col k'] Inr r
    have k': "k' = (if primaryKey (fieldSpec w) = Some True then k + 1 else k)" by auto
    have "k' + primaryKeyEntries fs \<le> 1" using Cons.prems k' a by (auto simp: primaryKeyEntries_def split: if_splits)
    from Cons.IH [OF this] show ?thesis using a Inr r by simp
  qed
qed

lemma tables_fail:
  "\<exists>m \<in> set ms. primaryKeyFields m \<ge> 2 \<Longrightarrow> \<exists>e. createSchema_tables ms acc = Inl e"
proof (induction ms arbitrary: acc)
  case Nil
  then show ?case by simp
next
  case (Cons m ms)
  show ?case
  proof (cases "createSchema_columns (model_name m) (model_spec m) [] 0")
    case (Inl e)
    then show ?thesis by simp
  next
    case (Inr columns)
    have "\<not> primaryKeyFields m \<ge> 2"
    proof
      assume "primaryKeyFields m \<ge> 2"
      then have "0 + primaryKeyEntries (model_spec m) > 1" by (simp add: primaryKeyFields_def primaryKeyEntries_def model_fields_def)
      from columns_fail [OF _ this, of "model_name m" "[]"] Inr show False by simp
    qed
    then have "\<exists>m \<in> set ms. primaryKeyFields m \<ge> 2" using Cons.prems by auto
    from Cons.IH [OF this] show ?thesis using Inr by simp
  qed
qed

lemma tables_ok:
  "\<forall>m \<in> set ms. primaryKeyFields m \<le> 1 \<Longrightarrow>
     createSchema_tables ms acc \<noteq> Inl (MultiplePrimaryKeys n)"
proof (induction ms arbitrary: acc)
  case Nil
  then show ?case by simp
next
  case (Cons m ms)
  have "0 + primaryKeyEntries (model_spec m) \<le> 1"
    using Cons.prems by (simp add: primaryKeyFields_def primaryKeyEntries_def model_fields_def)
  from columns_ok [OF this]
  have nm: "createSchema_columns (model_name m) (model_spec m) [] 0 \<noteq> Inl (MultiplePrimaryKeys n)" .
  show ?case
  proof (cases "createSchema_columns (model_name m) (model_spec m) [] 0")
    case (Inl e)
    then show ?thesis using nm by simp
  next
    case (Inr columns)
    then show ?thesis using Cons by simp
  qed
qed

lemma entries_set_fresh: "map_of xs k = None \<Longrightarrow> entries_set xs k v = xs @ [(k, v)]"
  by (induction xs) (auto split: if_splits)

lemma addField_fresh:
  assumes "isValidName fname" and "object_get (model_spec m) fname = Missing"
  shows "addField m fname fspec =
           Inr (m\<lparr>model_spec := model_spec m @ [(fname, \<lparr>fieldName = fname, fieldSpec = fspec\<rparr>)]\<rparr>)"
proof -
  from assms(2) have "map_of (model_spec m) fname = None"
    by (auto simp: object_get_def split: option.splits if_splits)
  then show ?thesis using assms by (simp add: addField_def entries_set_fresh)
qed

lemma twoKey_schema:
  "createSchema (emptyDatabase\<lparr>db_models := [twoKeyModel]\<rparr>) = Inl (MultiplePrimaryKeys ''foo'')"
  by (simp add: createSchema_def emptyDatabase_def twoKeyModel_def fooModel_def
        createSchema_column_def default_parts_def emptyFieldSpec_def)

lemma foo_schema:
  "createSchema (emptyDatabase\<lparr>db_models := [fooModel]\<rparr>) = Inr ''CREATE TABLE foo(id INTEGER PRIMARY KEY)''"
  by (simp add: createSchema_def emptyDatabase_def fooModel_def createSchema_column_def
        default_parts_def column_parts_def emptyFieldSpec_def)

text \<open>
  C6. \<open>addField\<close> does not look at primary-key flags: with a valid name that is not
  yet a property of the spec object it succeeds, and a primary-flagged field raises
  the model's count of primary keys by one, so a second one can be defined. When some
  model of the database has two or more primary-flagged fields, \<open>createSchema\<close> fails
  with an error; when every model has at most one, \<open>createSchema\<close> does not raise the
  multiple-primary-keys error.
\<close>

theorem compound_primary_key_fails_at_schema_time:
  "(isValidName fname \<and> object_get (model_spec m) fname = Missing \<longrightarrow>
      (\<exists>m'. addField m fname fspec = Inr m' \<and>
            primaryKeyFields m' =
              primaryKeyFields m + (if primaryKey fspec = Some True then 1 else 0)))
   \<and> ((\<exists>x \<in> set (db_models db). primaryKeyFields x \<ge> 2) \<longrightarrow> (\<exists>e. createSchema db = Inl e))
   \<and> ((\<forall>x \<in> set (db_models db). primaryKeyFields x \<le> 1) \<longrightarrow>
        (\<forall>n. createSchema db \<noteq> Inl (MultiplePrimaryKeys n)))"
proof (intro conjI impI)
  assume "isValidName fname \<and> object_get (model_spec m) fname = Missing"
  then show "\<exists>m'. addField m fname fspec = Inr m' \<and>
            primaryKeyFields m' =
              primaryKeyFields m + (if primaryKey fspec = Some True then 1 else 0)"
    by (simp add: addField_fresh primaryKeyFields_def model_fields_def)
next
  assume "\<exists>x \<in> set (db_models db). primaryKeyFields x \<ge> 2"
  from tables_fail [OF this, of "[]"] show "\<exists>e. createSchema db = Inl e"
    by (auto simp: createSchema_def)
next
  assume "\<forall>x \<in> set (db_models db). primaryKeyFields x \<le> 1"
  from tables_ok [OF this, of "[]"] show "\<forall>n. createSchema db \<noteq> Inl (MultiplePrimaryKeys n)"
    by (auto simp: createSchema_def split: sum.splits)
qed

theorem compound_primary_key_fails_at_schema_time_witness:
  "isValidName ''other'' \<and> object_get (model_spec fooModel) ''other'' = Missing
   \<and> addField fooModel ''other'' (emptyFieldSpec\<lparr>primaryKey := Some True\<rparr>) = Inr twoKeyModel
   \<and> primaryKeyFields twoKeyModel = 2
   \<and> (\<exists>e. createSchema (emptyDatabase\<lparr>db_models := [twoKeyModel]\<rparr>) = Inl e)
   \<and> primaryKeyFields fooModel = 1
   \<and> createSchema (emptyDatabase\<lparr>db_models := [fooModel]\<rparr>) \<noteq> Inl (MultiplePrimaryKeys ''foo'')"
  using compound_primary_key_fails_at_schema_time
          [of "''other''" fooModel "emptyFieldSpec\<lparr>primaryKey := Some True\<rparr>"
              "emptyDatabase\<lparr>db_models := [twoKeyModel]\<rparr>"]
        compound_primary_key_fails_at_schema_time
          [of "''other''" fooModel "emptyFieldSpec\<lparr>primaryKey := Some True\<rparr>"
              "emptyDatabase\<lparr>db_models := [fooModel]\<rparr>"]
  by (simp add: name_eval fooModel_def twoKeyModel_def emptyDatabase_def primaryKeyFields_def
        model_fields_def emptyFieldSpec_def addField_def)

section \<open>Properties: join conditions\<close>

lemma fooBar_reachable:
  "(case Database_define emptyDatabase ''foo''
           [(''id'', emptyFieldSpec\<lparr>primaryKey := Some True\<rparr>), (''title'', emptyFieldSpec)] of
      Inl e \<Rightarrow> Inl e
    | Inr (db1, foo) \<Rightarrow>
        (case Database_define db1 ''bar''
                [(''id'', emptyFieldSpec\<lparr>primaryKey := Some True\<rparr>), (''name'', emptyFieldSpec)] of
           Inl e \<Rightarrow> Inl e
         | Inr (db2, bar) \<Rightarrow>
             oneToOne db2 foo (Inl bar) (Some ''bar'')
               (Some \<lparr>foreignKey = None, companionField = Some ''foo''\<rparr>)))
   = Inr fooBarDatabase"
  by (simp add: Database_define_def emptyDatabase_def getModel_def new_Model_def addField_def
      name_eval the_model_def oneToOne_def oneOrManyToOne_def getFieldSpec_def set_model_def
      addForeignKeyConstraint_def addConstraint_def getPrimaryKeyName_def model_fields_def
      addRelationField_def checkRelationFieldName_def getRelationFieldData_def relation_ctor_def
      isMany_def fooBarDatabase_def wrapper_def defaultModelOptions_def fooBar_foo_relation_def
      fooBar_bar_relation_def Let_def)

text \<open>
  C7. For a Single relation edge, \<open>getJoinCondition\<close> called with the edge's owner
  model and companion model returns \<open>companionAlias.<companionPK> = ownerTable.<foreignKey>\<close>
  on the non-companion side and \<open>companionAlias.<foreignKey> = ownerTable.<ownerPK>\<close> on the
  companion side (type one-to-one and not left); for every other pair of models it
  fails with \<open>ModelMismatchError\<close>.
\<close>

theorem single_join_condition:
  "getJoinCondition db (SingleRelationFieldData n t owner companion isLeft fk) model companionAlias joinModel =
     (if model = owner \<and> joinModel = companion then
        (if t = OneToOne \<and> \<not> isLeft
         then Inr (companionAlias @ ''.'' @ fk @ '' = '' @ model_name (the_model db owner) @ ''.''
                   @ getPrimaryKeyName (the_model db owner))
         else Inr (companionAlias @ ''.'' @ getPrimaryKeyName (the_model db companion) @ '' = ''
                   @ model_name (the_model db owner) @ ''.'' @ fk))
      else Inl ModelMismatchError)"
  by (simp add: isCompanion_def)

theorem single_join_condition_witness:
  "getJoinCondition fooBarDatabase fooBar_foo_relation 0 ''__sa_bar'' 1 = Inr ''__sa_bar.id = foo.barid''
   \<and> getJoinCondition fooBarDatabase fooBar_bar_relation 1 ''__sa_foo'' 0 = Inr ''__sa_foo.barid = bar.id''
   \<and> getJoinCondition fooBarDatabase fooBar_bar_relation 0 ''__sa_foo'' 1 = Inl ModelMismatchError"
  using single_join_condition [of fooBarDatabase "''bar''" OneToOne 0 1 True "''barid''" 0 "''__sa_bar''" 1]
        single_join_condition [of fooBarDatabase "''foo''" OneToOne 1 0 False "''barid''" 1 "''__sa_foo''" 0]
        single_join_condition [of fooBarDatabase "''foo''" OneToOne 1 0 False "''barid''" 0 "''__sa_foo''" 1]
  by (simp add: fooBar_foo_relation_def fooBar_bar_relation_def fooBarDatabase_def the_model_def
        getPrimaryKeyName_def model_fields_def wrapper_def emptyFieldSpec_def)

section \<open>Properties: instances and relation accessors\<close>

lemma bar10_built:
  "makeInstance fooBarDatabase
     \<lparr>inst_model = 1, inst_fields = [(''id'', JNum 10), (''name'', JStr ''king'')],
      inst_created = True, inst_rowId = JNum 10, inst_relations = []\<rparr> = bar10"
  by (simp add: makeInstance_def bar10_def fooBarDatabase_def the_model_def fooBar_bar_relation_def)

text \<open>
  C10. On the companion side of a one-to-one relation, \<open>get()\<close> never takes the early
  branch that returns \<open>null\<close>: for an instance that passes \<open>_ensureGood\<close> (created, row
  identifier not null) it delegates to \<open>findOne\<close> on the companion model with the
  foreign key equal to the row identifier, and otherwise \<open>_ensureGood\<close> throws. The
  test \<open>!rowId == null\<close> compares a boolean with \<open>null\<close> and is false for every row
  identifier.
\<close>

theorem companion_get_always_queries:
  "(isCompanion t isLeft \<longrightarrow>
      DbSingleRelation_get inst t isLeft companionModel fk \<noteq> Inr ReturnNull)
   \<and> (isCompanion t isLeft \<and> inst_created inst \<and> \<not> is_nullish (inst_rowId inst) \<longrightarrow>
        DbSingleRelation_get inst t isLeft companionModel fk
          = Inr (FindOne companionModel [(fk, inst_rowId inst)]))
   \<and> \<not> is_nullish (JBool (\<not> js_truthy rowId))"
  by (simp add: DbSingleRelation_get_def ensureGood_def)

theorem companion_get_always_queries_witness:
  "isCompanion OneToOne False \<and> inst_created bar10 \<and> \<not> is_nullish (inst_rowId bar10)
   \<and> DbSingleRelation_get bar10 OneToOne False 0 ''barid'' = Inr (FindOne 0 [(''barid'', JNum 10)])
   \<and> DbSingleRelation_get bar10 OneToOne False 0 ''barid'' \<noteq> Inr ReturnNull"
  using companion_get_always_queries [of OneToOne False bar10 0 "''barid''"]
  by (simp add: isCompanion_def bar10_def)

lemma map_of_entries_set: "map_of (entries_set xs k v) k = Some v"
  by (induction xs) auto

lemma set_undeclared_name:
  assumes "getFieldWrapper (the_model db (inst_model inst)) prop = Missing"
      and "\<not> entries_has (inst_relations inst) prop"
  shows "fst (inst_set db inst prop v) = Inr True
         \<and> inst_has (snd (inst_set db inst prop v)) prop
         \<and> inst_get (snd (inst_set db inst prop v)) prop = Inl v"
  using assms
  by (simp add: inst_set_def inst_has_def inst_get_def entries_has_def map_of_entries_set)

text \<open>
  C9 (what the code does instead). For a name that the model's spec object inherits
  from \<open>Object.prototype\<close> (such as \<open>constructor\<close>), that is no field of the model and
  no relation of the instance, \<open>$set\<close> writes the field map and then throws a
  \<open>TypeError\<close>: \<open>getFieldWrapper\<close> returns the inherited member, and
  \<open>fsw.fieldSpec.primaryKey\<close> reads a property of \<open>undefined\<close>. For the names that are
  no property of the spec object at all, lemma \<open>set_undeclared_name\<close> shows the claimed
  behaviour.
\<close>

theorem set_inherited_name_throws:
  "prop \<in> set object_prototype_names \<and> map_of (model_spec (the_model db (inst_model inst))) prop = None
   \<and> \<not> entries_has (inst_relations inst) prop \<longrightarrow>
     inst_set db inst prop v
       = (Inl TypeError, inst\<lparr>inst_fields := entries_set (inst_fields inst) prop v\<rparr>)"
  by (simp add: inst_set_def getFieldWrapper_def object_get_def)

theorem set_inherited_name_throws_witness:
  "''constructor'' \<in> set object_prototype_names
   \<and> map_of (model_spec (the_model fooBarDatabase (inst_model bar10))) ''constructor'' = None
   \<and> \<not> entries_has (inst_relations bar10) ''constructor''
   \<and> getFieldSpec (the_model fooBarDatabase 1) ''constructor'' = None
   \<and> getRelationFieldData (the_model fooBarDatabase 1) ''constructor'' = None
   \<and> \<not> startsWith ''constructor'' ''$''
   \<and> inst_set fooBarDatabase bar10 ''constructor'' (JNum 1)
       = (Inl TypeError, bar10\<lparr>inst_fields := inst_fields bar10 @ [(''constructor'', JNum 1)]\<rparr>)"
  using set_inherited_name_throws [of "''constructor''" fooBarDatabase bar10 "JNum 1"]
  by (simp add: entries_has_def bar10_def the_model_def
        fooBarDatabase_def wrapper_def object_prototype_names_def getFieldSpec_def object_get_def
        getRelationFieldData_def fooBar_bar_relation_def startsWith_def)

section \<open>Properties: bound parameters\<close>


























section \<open>Properties: the criteria compiler\<close>

lemmas fixture_eval = connectedFooBar_def fooBarDatabase_def the_model_def wrapper_def
  defaultModelOptions_def fooBar_foo_relation_def fooBar_bar_relation_def emptyFieldSpec_def

lemmas builder_eval = new_QueryBuilder_def buildWhere_def makeWhere_def makeJoins_def
  getPrimaryKeyName_def model_fields_def ROWID_def Let_def

lemmas where_eval = buildWhereNode.simps buildOperator_def buildMappedOperator_def attachColumn_def
  getFieldWrapperChecked_def getFieldWrapper_def object_get_def object_prototype_names_def
  fsw_convert_def convertToDatabaseForm_def qb_bind_def bind_def uniqueName_def
  nat_to_string.simps digit_char_def startsWith_def toLowerCase_def toLowerCase_char_def
  upper_letters_def lower_letters_def mappedOperators_def

lemma value_node_in_single:
  "buildWhereNode db qb ''$in'' (JArr [v]) (WhereTree Value And field [])
   = buildWhereNode db qb ''$eq'' v (WhereTree Value And field [])"
  by (simp add: buildWhereNode.simps buildOperator_def startsWith_def toLowerCase_def
        toLowerCase_char_def upper_letters_def lower_letters_def mappedOperators_def)

lemma value_node_notin_single:
  "buildWhereNode db qb ''$notin'' (JArr [v]) (WhereTree Value And field [])
   = buildWhereNode db qb ''$ne'' v (WhereTree Value And field [])"
  by (simp add: buildWhereNode.simps buildOperator_def startsWith_def toLowerCase_def
        toLowerCase_char_def upper_letters_def lower_letters_def mappedOperators_def)

lemma value_node_in_empty:
  "buildWhereNode db qb ''$in'' (JArr []) (WhereTree Value And field []) = Inl ListExpected
   \<and> buildWhereNode db qb ''$notin'' (JArr []) (WhereTree Value And field []) = Inl ListExpected"
  by (simp add: buildWhereNode.simps buildOperator_def startsWith_def toLowerCase_def
        toLowerCase_char_def upper_letters_def lower_letters_def mappedOperators_def)

lemma field_node:
  "\<not> startsWith field ''$'' \<Longrightarrow>
   buildWhereNode db qb field (JObj [(k, x)]) parentNode =
     (if tree_context parentNode = Logical then
        (case buildWhereNode db qb k x (WhereTree Value And field []) of
           Inl e \<Rightarrow> Inl e
         | Inr (qb', node) \<Rightarrow> Inr (qb', tree_append parentNode (Inr node)))
      else Inl UnexpectedValue)"
  by (subst buildWhereNode.simps) (simp split: sum.splits)

lemma lift_where_simps [simp]:
  "lift_where w (Inl e) = Inl e"
  "lift_where w (Inr (q, x)) = Inr (q\<lparr>qb_whereClause := w\<rparr>, x)"
  by (simp_all add: lift_where_def)

lemma qb_bind_frame:
  "qb_bind (qb\<lparr>qb_whereClause := w\<rparr>) v
     = (fst (qb_bind qb v), (snd (qb_bind qb v))\<lparr>qb_whereClause := w\<rparr>)"
  by (simp add: qb_bind_def split: prod.splits)

lemma attachColumn_frame:
  "attachColumn db (qb\<lparr>qb_whereClause := w\<rparr>) f = lift_where w (attachColumn db qb f)"
  by (simp add: attachColumn_def Let_def addJoin_def addConstraintQ_def
           split: option.splits sum.splits prod.splits)

lemma bind_list_frame:
  "bind_list (qb\<lparr>qb_whereClause := w\<rparr>) fsw xs acc = lift_where w (bind_list qb fsw xs acc)"
proof (induction xs arbitrary: qb acc)
  case Nil
  then show ?case by simp
next
  case (Cons x xs)
  show ?case
  proof (cases "fsw_convert fsw x")
    case (Inl e)
    then show ?thesis by simp
  next
    case (Inr conv)
    obtain ph q where b: "qb_bind qb conv = (ph, q)" by (cases "qb_bind qb conv")
    then have "qb_bind (qb\<lparr>qb_whereClause := w\<rparr>) conv = (ph, q\<lparr>qb_whereClause := w\<rparr>)"
      by (simp add: qb_bind_frame)
    then show ?thesis using Inr b Cons.IH [of q] by simp
  qed
qed

lemma buildMappedOperator_frame:
  "buildMappedOperator db (qb\<lparr>qb_whereClause := w\<rparr>) operator left right parentNode
     = lift_where w (buildMappedOperator db qb operator left right parentNode)"
  by (auto simp: buildMappedOperator_def attachColumn_frame qb_bind_frame
           split: sum.splits prod.splits)

lemma buildOperator_frame:
  "buildOperator db (qb\<lparr>qb_whereClause := w\<rparr>) operator left right parentNode
     = lift_where w (buildOperator db qb operator left right parentNode)"
  by (auto simp: buildOperator_def buildMappedOperator_frame attachColumn_frame bind_list_frame
           split: sum.splits prod.splits option.splits jsval.splits)



lemma fold_entries_Inl: "fold_entries f (Inl e) entries = Inl e"
  by (induction entries) (auto simp: fold_entries_def)

lemma fold_entries_Cons:
  "fold_entries f (Inr (q, n)) ((k, x) # entries) = fold_entries f (f q k x n) entries"
  by (simp add: fold_entries_def)

lemma fold_entries_frame:
  assumes "\<And>k x q n. (k, x) \<in> set entries \<Longrightarrow>
             f (q\<lparr>qb_whereClause := w\<rparr>) k x n = lift_where w (f q k x n)"
  shows "fold_entries f (Inr (q0\<lparr>qb_whereClause := w\<rparr>, n0)) entries
           = lift_where w (fold_entries f (Inr (q0, n0)) entries)"
  using assms
proof (induction entries arbitrary: q0 n0)
  case Nil
  then show ?case by (simp add: fold_entries_def)
next
  case (Cons a entries)
  obtain k x where a: "a = (k, x)" by (cases a)
  have step: "f (q0\<lparr>qb_whereClause := w\<rparr>) k x n0 = lift_where w (f q0 k x n0)"
    using Cons.prems a by simp
  show ?case
  proof (cases "f q0 k x n0")
    case (Inl e)
    then show ?thesis using a step by (simp add: fold_entries_Cons fold_entries_Inl)
  next
    case (Inr r)
    obtain q1 n1 where r: "r = (q1, n1)" by (cases r)
    have "fold_entries f (Inr (q1\<lparr>qb_whereClause := w\<rparr>, n1)) entries
            = lift_where w (fold_entries f (Inr (q1, n1)) entries)"
      using Cons.prems by (intro Cons.IH) simp
    then show ?thesis using a step Inr r by (simp add: fold_entries_Cons)
  qed
qed

lemma buildWhereNode_unfold:
  "buildWhereNode db qb key v parentNode =
     (if startsWith key ''$'' then
        (if tree_context parentNode = Logical then
           (if toLowerCase key = ''$and'' \<or> toLowerCase key = ''$or'' then
              (case object_entries v of
                 Inl e \<Rightarrow> Inl e
               | Inr entries \<Rightarrow>
                   (case fold_entries (buildWhereNode db)
                           (Inr (qb, WhereTree Logical
                                       (if toLowerCase key = ''$and'' then And else Or) [] []))
                           entries of
                      Inl e \<Rightarrow> Inl e
                    | Inr (qb', node) \<Rightarrow> Inr (qb', tree_append parentNode (Inr node))))
            else Inl (UnexpectedOperator (toLowerCase key)))
         else buildOperator db qb (toLowerCase (toLowerCase key)) (closestField parentNode) v parentNode)
      else
        (if tree_context parentNode = Logical then
           (if is_object v then
              (case object_entries v of
                 Inl e \<Rightarrow> Inl e
               | Inr entries \<Rightarrow>
                   (case fold_entries (buildWhereNode db) (Inr (qb, WhereTree Value And key []))
                           entries of
                      Inl e \<Rightarrow> Inl e
                    | Inr (qb', node) \<Rightarrow> Inr (qb', tree_append parentNode (Inr node))))
            else buildMappedOperator db qb ''='' key v parentNode)
         else Inl UnexpectedValue))"
  unfolding fold_entries_def by (rule buildWhereNode.simps)

lemma buildWhereNode_frame:
  "buildWhereNode db (qb\<lparr>qb_whereClause := w\<rparr>) key v parentNode
     = lift_where w (buildWhereNode db qb key v parentNode)"
proof (induction db qb key v parentNode rule: buildWhereNode.induct)
  case (1 db qb key v parentNode)
  have logical: "fold_entries (buildWhereNode db) (Inr (qb\<lparr>qb_whereClause := w\<rparr>, n0)) entries
                = lift_where w (fold_entries (buildWhereNode db) (Inr (qb, n0)) entries)"
    if c: "startsWith key ''$''" "tree_context parentNode = Logical"
          "toLowerCase key = ''$and'' \<or> toLowerCase key = ''$or''"
          "object_entries v = Inr entries"
    for entries n0
  proof (rule fold_entries_frame)
    fix k x q n
    assume m: "(k, x) \<in> set entries"
    show "buildWhereNode db (q\<lparr>qb_whereClause := w\<rparr>) k x n
                 = lift_where w (buildWhereNode db q k x n)"
      by (rule "1.IH"(1) [OF c m refl refl refl])
  qed
  have field: "fold_entries (buildWhereNode db) (Inr (qb\<lparr>qb_whereClause := w\<rparr>, n0)) entries
                = lift_where w (fold_entries (buildWhereNode db) (Inr (qb, n0)) entries)"
    if c: "\<not> startsWith key ''$''" "tree_context parentNode = Logical" "is_object v"
          "object_entries v = Inr entries"
    for entries n0
  proof (rule fold_entries_frame)
    fix k x q n
    assume m: "(k, x) \<in> set entries"
    show "buildWhereNode db (q\<lparr>qb_whereClause := w\<rparr>) k x n
                 = lift_where w (buildWhereNode db q k x n)"
      by (rule "1.IH"(2) [OF c m refl refl refl])
  qed
  show ?case
    by (subst buildWhereNode_unfold, subst buildWhereNode_unfold)
       (auto simp: logical field buildOperator_frame buildMappedOperator_frame split: sum.splits)
qed

lemma buildWhere_single:
  "buildWhere db (new_QueryBuilder random model (Some [(field, c)]))
     = (case buildWhereNode db (new_QueryBuilder random model None) field c (WhereTree Logical And [] []) of
          Inl e \<Rightarrow> Inl e
        | Inr (q, node) \<Rightarrow> Inr (q\<lparr>qb_whereClause := [(field, c)], qb_globalWhere := node\<rparr>))"
proof -
  have n: "new_QueryBuilder random model (Some [(field, c)])
             = (new_QueryBuilder random model None)\<lparr>qb_whereClause := [(field, c)]\<rparr>"
    by (simp add: new_QueryBuilder_def)
  have g: "qb_globalWhere (new_QueryBuilder random model None) = WhereTree Logical And [] []"
    by (simp add: new_QueryBuilder_def)
  show ?thesis
    unfolding n
    by (simp add: buildWhere_def buildWhereNode_frame g split: sum.splits)
qed

lemma buildSort_frame:
  "buildSort db (qb\<lparr>qb_whereClause := w\<rparr>) options
     = (case buildSort db qb options of Inl e \<Rightarrow> Inl e | Inr q \<Rightarrow> Inr (q\<lparr>qb_whereClause := w\<rparr>))"
  by (simp add: buildSort_def Let_def addConstraintQ_def split: sum.splits option.splits)

lemma buildJoins_loop_frame:
  "buildJoins_loop db (qb\<lparr>qb_whereClause := w\<rparr>) js
     = (case buildJoins_loop db qb js of Inl e \<Rightarrow> Inl e | Inr q \<Rightarrow> Inr (q\<lparr>qb_whereClause := w\<rparr>))"
proof (induction js arbitrary: qb)
  case Nil
  then show ?case by simp
next
  case (Cons j js)
  have a: "addExtraColumns (addJoin (qb\<lparr>qb_whereClause := w\<rparr>) jd) cols
             = (addExtraColumns (addJoin qb jd) cols)\<lparr>qb_whereClause := w\<rparr>" for jd cols
    by (simp add: addExtraColumns_def addJoin_def)
  show ?case by (simp add: a Cons.IH split: sum.splits)
qed

lemma select_rest_frame:
  "(case buildSort db (buildConstraints (qb\<lparr>qb_whereClause := w\<rparr>) options) options of
      Inl e \<Rightarrow> Inl e
    | Inr qb3 \<Rightarrow> buildJoins db qb3 options)
   = (case (case buildSort db (buildConstraints qb options) options of
              Inl e \<Rightarrow> Inl e
            | Inr qb3 \<Rightarrow> buildJoins db qb3 options) of
        Inl e \<Rightarrow> Inl e
      | Inr q \<Rightarrow> Inr (q\<lparr>qb_whereClause := w\<rparr>))"
proof -
  have c: "buildConstraints (qb\<lparr>qb_whereClause := w\<rparr>) options
             = (buildConstraints qb options)\<lparr>qb_whereClause := w\<rparr>"
    by (simp add: buildConstraints_def addConstraintQ_def Let_def split: option.splits)
  show ?thesis
    by (simp add: c buildSort_frame buildJoins_def buildJoins_loop_frame
             split: sum.splits option.splits)
qed

lemma outputs_frame:
  "select_text db (qb\<lparr>qb_whereClause := w\<rparr>) = select_text db qb"
  "count_text db (qb\<lparr>qb_whereClause := w\<rparr>) = count_text db qb"
  by (simp_all add: select_text_def count_text_def countConstraints_def makeJoins_def makeWhere_def)

lemma buildSelect_single:
  "buildSelect db random model (options\<lparr>fo_where := Some [(field, c)]\<rparr>)
     = select_of_node db options
         (buildWhereNode db (new_QueryBuilder random model None) field c (WhereTree Logical And [] []))"
proof -
  have o: "buildConstraints q (options\<lparr>fo_where := x\<rparr>) = buildConstraints q options"
          "buildSort db q (options\<lparr>fo_where := x\<rparr>) = buildSort db q options"
          "buildJoins db q (options\<lparr>fo_where := x\<rparr>) = buildJoins db q options" for q x
    by (simp_all add: buildConstraints_def buildSort_def buildJoins_def)
  show ?thesis
  proof (cases "buildWhereNode db (new_QueryBuilder random model None) field c (WhereTree Logical And [] [])")
    case (Inl e)
    then show ?thesis
      by (simp add: buildSelect_def select_builder_def select_of_node_def buildWhere_single)
  next
    case (Inr r)
    obtain q node where r: "r = (q, node)" by (cases r)
    have w: "buildWhere db (new_QueryBuilder random model (Some [(field, c)]))
               = Inr ((q\<lparr>qb_globalWhere := node\<rparr>)\<lparr>qb_whereClause := [(field, c)]\<rparr>)"
      using Inr r by (simp add: buildWhere_single)
    show ?thesis
    proof (cases "case buildSort db (buildConstraints (q\<lparr>qb_globalWhere := node\<rparr>) options) options of
                    Inl e \<Rightarrow> Inl e
                  | Inr qb3 \<Rightarrow> buildJoins db qb3 options")
      case (Inl e)
      then show ?thesis
        using Inr r
        unfolding buildSelect_def select_builder_def select_of_node_def
        by (simp add: w o select_rest_frame del: buildJoins_loop.simps cong: sum.case_cong)
    next
      case inner: (Inr qb)
      then show ?thesis
        using Inr r
        unfolding buildSelect_def select_builder_def select_of_node_def
        by (simp add: w o select_rest_frame outputs_frame del: buildJoins_loop.simps cong: sum.case_cong)
    qed
  qed
qed

lemmas operator_eval = buildWhereNode.simps buildOperator_def startsWith_def toLowerCase_def
  toLowerCase_char_def upper_letters_def lower_letters_def mappedOperators_def

lemma value_node_render:
  "buildWhereNode db qb ''$in'' (JArr [v]) (WhereTree Value And field [])
     = buildMappedOperator db qb ''='' field v (WhereTree Value And field [])"
  "buildWhereNode db qb ''$notin'' (JArr [v]) (WhereTree Value And field [])
     = buildMappedOperator db qb ''<>'' field v (WhereTree Value And field [])"
  "buildWhereNode db qb ''$eq'' v (WhereTree Value And field [])
     = buildMappedOperator db qb ''='' field v (WhereTree Value And field [])"
  "buildWhereNode db qb ''$ne'' v (WhereTree Value And field [])
     = buildMappedOperator db qb ''<>'' field v (WhereTree Value And field [])"
  by (simp_all add: operator_eval)

lemma mapped_operator_own_field:
  assumes "indexOf field (CHR ''$'') = None"
      and "getFieldWrapper (the_model db (qb_model qb)) field = Own w"
      and "convertToDatabaseForm w v = Inr conv"
  shows "buildMappedOperator db qb operator field v node
           = Inr (qb\<lparr>qb_bound := entries_set (qb_bound qb) (uniqueName (qb_random qb 0)) conv,
                     qb_random := (\<lambda>i. qb_random qb (Suc i))\<rparr>,
                  tree_append node
                    (Inl (model_name (the_model db (qb_model qb)) @ ''.'' @ field @ '' '' @ operator
                          @ '' :'' @ uniqueName (qb_random qb 0))))"
  using assms
  by (simp add: buildMappedOperator_def attachColumn_def getFieldWrapperChecked_def fsw_convert_def
        qb_bind_def bind_def)

lemma indexOf_None_no_prefix: "indexOf field (CHR ''$'') = None \<Longrightarrow> \<not> startsWith field ''$''"
  by (cases field) (auto simp: startsWith_def split: if_splits)

lemma single_element_renders_comparison:
  "(\<not> startsWith field ''$'' \<longrightarrow>
      buildWhereNode db qb field (JObj [(''$in'', JArr [v])]) parentNode
        = (if tree_context parentNode = Logical then
             (case buildMappedOperator db qb ''='' field v (WhereTree Value And field []) of
                Inl e \<Rightarrow> Inl e
              | Inr (qb', node) \<Rightarrow> Inr (qb', tree_append parentNode (Inr node)))
           else Inl UnexpectedValue)
      \<and> buildWhereNode db qb field (JObj [(''$notin'', JArr [v])]) parentNode
        = (if tree_context parentNode = Logical then
             (case buildMappedOperator db qb ''<>'' field v (WhereTree Value And field []) of
                Inl e \<Rightarrow> Inl e
              | Inr (qb', node) \<Rightarrow> Inr (qb', tree_append parentNode (Inr node)))
           else Inl UnexpectedValue))
   \<and> (indexOf field (CHR ''$'') = None
        \<and> getFieldWrapper (the_model db (qb_model qb)) field = Own w
        \<and> convertToDatabaseForm w v = Inr conv
        \<and> tree_context parentNode = Logical \<longrightarrow>
      buildWhereNode db qb field (JObj [(''$in'', JArr [v])]) parentNode
        = Inr (qb\<lparr>qb_bound := entries_set (qb_bound qb) (uniqueName (qb_random qb 0)) conv,
                  qb_random := (\<lambda>i. qb_random qb (Suc i))\<rparr>,
               tree_append parentNode
                 (Inr (WhereTree Value And field
                         [Inl (model_name (the_model db (qb_model qb)) @ ''.'' @ field
                               @ '' = :'' @ uniqueName (qb_random qb 0))])))
      \<and> buildWhereNode db qb field (JObj [(''$notin'', JArr [v])]) parentNode
        = Inr (qb\<lparr>qb_bound := entries_set (qb_bound qb) (uniqueName (qb_random qb 0)) conv,
                  qb_random := (\<lambda>i. qb_random qb (Suc i))\<rparr>,
               tree_append parentNode
                 (Inr (WhereTree Value And field
                         [Inl (model_name (the_model db (qb_model qb)) @ ''.'' @ field
                               @ '' <> :'' @ uniqueName (qb_random qb 0))]))))"
proof (intro conjI impI)
  assume "\<not> startsWith field ''$''"
  then show "buildWhereNode db qb field (JObj [(''$in'', JArr [v])]) parentNode
        = (if tree_context parentNode = Logical then
             (case buildMappedOperator db qb ''='' field v (WhereTree Value And field []) of
                Inl e \<Rightarrow> Inl e
              | Inr (qb', node) \<Rightarrow> Inr (qb', tree_append parentNode (Inr node)))
           else Inl UnexpectedValue)"
    and "buildWhereNode db qb field (JObj [(''$notin'', JArr [v])]) parentNode
        = (if tree_context parentNode = Logical then
             (case buildMappedOperator db qb ''<>'' field v (WhereTree Value And field []) of
                Inl e \<Rightarrow> Inl e
              | Inr (qb', node) \<Rightarrow> Inr (qb', tree_append parentNode (Inr node)))
           else Inl UnexpectedValue)"
    by (simp_all add: field_node value_node_render)
next
  assume a: "indexOf field (CHR ''$'') = None
        \<and> getFieldWrapper (the_model db (qb_model qb)) field = Own w
        \<and> convertToDatabaseForm w v = Inr conv
        \<and> tree_context parentNode = Logical"
  then have n: "\<not> startsWith field ''$''" by (simp add: indexOf_None_no_prefix)
  from a have m: "buildMappedOperator db qb operator field v (WhereTree Value And field [])
           = Inr (qb\<lparr>qb_bound := entries_set (qb_bound qb) (uniqueName (qb_random qb 0)) conv,
                     qb_random := (\<lambda>i. qb_random qb (Suc i))\<rparr>,
                  tree_append (WhereTree Value And field [])
                    (Inl (model_name (the_model db (qb_model qb)) @ ''.'' @ field @ '' '' @ operator
                          @ '' :'' @ uniqueName (qb_random qb 0))))" for operator
    using mapped_operator_own_field [of field db qb w v conv operator "WhereTree Value And field []"]
    by blast
  show "buildWhereNode db qb field (JObj [(''$in'', JArr [v])]) parentNode
        = Inr (qb\<lparr>qb_bound := entries_set (qb_bound qb) (uniqueName (qb_random qb 0)) conv,
                  qb_random := (\<lambda>i. qb_random qb (Suc i))\<rparr>,
               tree_append parentNode
                 (Inr (WhereTree Value And field
                         [Inl (model_name (the_model db (qb_model qb)) @ ''.'' @ field
                               @ '' = :'' @ uniqueName (qb_random qb 0))])))"
    using a by (simp add: field_node [OF n] value_node_render m)
  show "buildWhereNode db qb field (JObj [(''$notin'', JArr [v])]) parentNode
        = Inr (qb\<lparr>qb_bound := entries_set (qb_bound qb) (uniqueName (qb_random qb 0)) conv,
                  qb_random := (\<lambda>i. qb_random qb (Suc i))\<rparr>,
               tree_append parentNode
                 (Inr (WhereTree Value And field
                         [Inl (model_name (the_model db (qb_model qb)) @ ''.'' @ field
                               @ '' <> :'' @ uniqueName (qb_random qb 0))])))"
    using a by (simp add: field_node [OF n] value_node_render m)
qed


text \<open>
  C4. For a field key (one that does not start with \<open>$\<close>) and every value \<open>v\<close>,
  builder state and parent node, compiling \<open>{field: {$in: [v]}}\<close> gives the same result
  as compiling \<open>{field: {$eq: v}}\<close>: the same WHERE node, the same bound parameters
  and joins, or the same error; likewise \<open>$notin\<close> and \<open>$ne\<close>. So the SELECT built
  for either criterion is the same statement with the same bound parameters. With an
  empty list both operators fail: under a logical parent with the error of \<open>$in\<close> and
  \<open>$notin\<close>, "expect a list of values", which is also how building the SELECT fails.
  A single-element list is rendered as a comparison and not as a list: \<open>$in\<close> goes
  through \<open>_buildMappedOperator\<close> with the operator \<open>=\<close> and \<open>$notin\<close> with \<open><>\<close>,
  each against the one element. For a declared field of the builder's own model whose
  value converts, the fragment is \<open>model.field = :name\<close>, respectively
  \<open>model.field <> :name\<close>, where \<open>name\<close> is the placeholder of the next random draw,
  and the converted value is the one parameter bound under that name.
\<close>

theorem single_element_in_is_equality:
  "(\<not> startsWith field ''$'' \<longrightarrow>
     buildWhereNode db qb field (JObj [(''$in'', JArr [v])]) parentNode
       = buildWhereNode db qb field (JObj [(''$eq'', v)]) parentNode
     \<and> buildWhereNode db qb field (JObj [(''$notin'', JArr [v])]) parentNode
       = buildWhereNode db qb field (JObj [(''$ne'', v)]) parentNode
     \<and> buildWhereNode db qb field (JObj [(''$in'', JArr [])]) parentNode
       = Inl (if tree_context parentNode = Logical then ListExpected else UnexpectedValue)
     \<and> buildWhereNode db qb field (JObj [(''$notin'', JArr [])]) parentNode
       = Inl (if tree_context parentNode = Logical then ListExpected else UnexpectedValue)
     \<and> buildSelect db random model (options\<lparr>fo_where := Some [(field, JObj [(''$in'', JArr [v])])]\<rparr>)
       = buildSelect db random model (options\<lparr>fo_where := Some [(field, JObj [(''$eq'', v)])]\<rparr>)
     \<and> buildSelect db random model (options\<lparr>fo_where := Some [(field, JObj [(''$notin'', JArr [v])])]\<rparr>)
       = buildSelect db random model (options\<lparr>fo_where := Some [(field, JObj [(''$ne'', v)])]\<rparr>)
     \<and> buildSelect db random model (options\<lparr>fo_where := Some [(field, JObj [(''$in'', JArr [])])]\<rparr>)
       = Inl ListExpected
     \<and> buildSelect db random model (options\<lparr>fo_where := Some [(field, JObj [(''$notin'', JArr [])])]\<rparr>)
       = Inl ListExpected
     \<and> buildWhereNode db qb field (JObj [(''$in'', JArr [v])]) parentNode
       = (if tree_context parentNode = Logical then
            (case buildMappedOperator db qb ''='' field v (WhereTree Value And field []) of
               Inl e \<Rightarrow> Inl e
             | Inr (qb', node) \<Rightarrow> Inr (qb', tree_append parentNode (Inr node)))
          else Inl UnexpectedValue)
     \<and> buildWhereNode db qb field (JObj [(''$notin'', JArr [v])]) parentNode
       = (if tree_context parentNode = Logical then
            (case buildMappedOperator db qb ''<>'' field v (WhereTree Value And field []) of
               Inl e \<Rightarrow> Inl e
             | Inr (qb', node) \<Rightarrow> Inr (qb', tree_append parentNode (Inr node)))
          else Inl UnexpectedValue))
   \<and> (indexOf field (CHR ''$'') = None
        \<and> getFieldWrapper (the_model db (qb_model qb)) field = Own w
        \<and> convertToDatabaseForm w v = Inr conv
        \<and> tree_context parentNode = Logical \<longrightarrow>
      buildWhereNode db qb field (JObj [(''$in'', JArr [v])]) parentNode
        = Inr (qb\<lparr>qb_bound := entries_set (qb_bound qb) (uniqueName (qb_random qb 0)) conv,
                  qb_random := (\<lambda>i. qb_random qb (Suc i))\<rparr>,
               tree_append parentNode
                 (Inr (WhereTree Value And field
                         [Inl (model_name (the_model db (qb_model qb)) @ ''.'' @ field
                               @ '' = :'' @ uniqueName (qb_random qb 0))])))
      \<and> buildWhereNode db qb field (JObj [(''$notin'', JArr [v])]) parentNode
        = Inr (qb\<lparr>qb_bound := entries_set (qb_bound qb) (uniqueName (qb_random qb 0)) conv,
                  qb_random := (\<lambda>i. qb_random qb (Suc i))\<rparr>,
               tree_append parentNode
                 (Inr (WhereTree Value And field
                         [Inl (model_name (the_model db (qb_model qb)) @ ''.'' @ field
                               @ '' <> :'' @ uniqueName (qb_random qb 0))]))))"
  (is "(?N \<longrightarrow> ?a1 \<and> ?a2 \<and> ?a3 \<and> ?a4 \<and> ?a5 \<and> ?a6 \<and> ?a7 \<and> ?a8 \<and> ?r1 \<and> ?r2)
       \<and> (?H \<longrightarrow> ?e1 \<and> ?e2)")
proof -
  have alike: "?N \<longrightarrow> ?a1 \<and> ?a2 \<and> ?a3 \<and> ?a4 \<and> ?a5 \<and> ?a6 \<and> ?a7 \<and> ?a8"
    by (simp add: buildSelect_single select_of_node_def field_node value_node_in_single
          value_node_notin_single value_node_in_empty)
  have render: "(?N \<longrightarrow> ?r1 \<and> ?r2) \<and> (?H \<longrightarrow> ?e1 \<and> ?e2)"
    by (rule single_element_renders_comparison)
  show ?thesis
  proof (intro conjI impI)
    assume n: ?N
    from alike n have o: "?a1 \<and> ?a2 \<and> ?a3 \<and> ?a4 \<and> ?a5 \<and> ?a6 \<and> ?a7 \<and> ?a8" by (rule mp)
    from render [THEN conjunct1] n have r: "?r1 \<and> ?r2" by (rule mp)
    from o show ?a1 ?a2 ?a3 ?a4 ?a5 ?a6 ?a7 ?a8 by - (elim conjE, assumption)+
    from r show ?r1 ?r2 by - (elim conjE, assumption)+
  next
    assume h: ?H
    from render [THEN conjunct2] h have e: "?e1 \<and> ?e2" by (rule mp)
    from e show ?e1 ?e2 by - (elim conjE, assumption)+
  qed
qed

theorem single_element_in_is_equality_witness:
  "\<not> startsWith ''title'' ''$''
   \<and> indexOf ''title'' (CHR ''$'') = None
   \<and> getFieldWrapper (the_model fooBarDatabase (qb_model titleBuilder)) ''title''
       = Own \<lparr>fieldName = ''title'', fieldSpec = emptyFieldSpec\<rparr>
   \<and> convertToDatabaseForm \<lparr>fieldName = ''title'', fieldSpec = emptyFieldSpec\<rparr> (JStr ''a'')
       = Inr (JStr ''a'')
   \<and> tree_context (qb_globalWhere titleBuilder) = Logical
   \<and> (case buildWhereNode fooBarDatabase titleBuilder ''title'' (JObj [(''$in'', JArr [JStr ''a''])])
              (qb_globalWhere titleBuilder) of
          Inl e \<Rightarrow> Inl e
        | Inr (qb, node) \<Rightarrow> Inr (qb_bound qb, node))
       = Inr ([(''uniq_7'', JStr ''a'')],
              WhereTree Logical And [] [Inr (WhereTree Value And ''title'' [Inl ''foo.title = :uniq_7''])])
   \<and> (case buildWhereNode fooBarDatabase titleBuilder ''title'' (JObj [(''$eq'', JStr ''a'')])
              (qb_globalWhere titleBuilder) of
          Inl e \<Rightarrow> Inl e
        | Inr (qb, node) \<Rightarrow> Inr (qb_bound qb, node))
       = Inr ([(''uniq_7'', JStr ''a'')],
              WhereTree Logical And [] [Inr (WhereTree Value And ''title'' [Inl ''foo.title = :uniq_7''])])
   \<and> (case buildWhereNode fooBarDatabase titleBuilder ''title'' (JObj [(''$notin'', JArr [JStr ''a''])])
              (qb_globalWhere titleBuilder) of
          Inl e \<Rightarrow> Inl e
        | Inr (qb, node) \<Rightarrow> Inr (qb_bound qb, node))
       = Inr ([(''uniq_7'', JStr ''a'')],
              WhereTree Logical And [] [Inr (WhereTree Value And ''title'' [Inl ''foo.title <> :uniq_7''])])
   \<and> (case buildWhereNode fooBarDatabase titleBuilder ''title'' (JObj [(''$ne'', JStr ''a'')])
              (qb_globalWhere titleBuilder) of
          Inl e \<Rightarrow> Inl e
        | Inr (qb, node) \<Rightarrow> Inr (qb_bound qb, node))
       = Inr ([(''uniq_7'', JStr ''a'')],
              WhereTree Logical And [] [Inr (WhereTree Value And ''title'' [Inl ''foo.title <> :uniq_7''])])
   \<and> buildWhereNode fooBarDatabase titleBuilder ''title'' (JObj [(''$in'', JArr [])])
         (qb_globalWhere titleBuilder) = Inl ListExpected
   \<and> buildWhereNode fooBarDatabase titleBuilder ''title'' (JObj [(''$notin'', JArr [])])
         (qb_globalWhere titleBuilder) = Inl ListExpected"
  using single_element_in_is_equality
          [where field = "''title''" and db = fooBarDatabase and qb = titleBuilder
             and v = "JStr ''a''" and parentNode = "qb_globalWhere titleBuilder"
             and w = "\<lparr>fieldName = ''title'', fieldSpec = emptyFieldSpec\<rparr>"
             and conv = "JStr ''a''"]
  by (simp add: titleBuilder_def builder_eval where_eval fixture_eval)

lemma in_list_example:
  "(case buildSelect fooBarDatabase (\<lambda>i. 7 + i) 1
     (noFindOptions\<lparr>fo_where := Some [(''name'', JObj [(''$in'', JArr [JStr ''a'', JStr ''b''])])]\<rparr>)
    of Inl e \<Rightarrow> Inl e | Inr q \<Rightarrow> Inr (drop 50 (selectQuery q), select_bound q))
   = Inr (''FROM bar  WHERE bar.name IN (:uniq_7, :uniq_8) '',
          [(''uniq_7'', JStr ''a''), (''uniq_8'', JStr ''b'')])"
  by (simp add: buildSelect_def select_builder_def buildConstraints_def buildSort_def buildJoins_def
        select_text_def makeColumnListForModel_def noFindOptions_def builder_eval where_eval fixture_eval)

lemma relation_field_example:
  "buildRemove fooBarDatabase (\<lambda>i. 7 + i) 1 \<lparr>ro_where = Some [(''foo$title'', JStr ''a'')]\<rparr>
   = Inr \<lparr>query = ''DELETE FROM bar WHERE id IN (SELECT bar.id FROM bar LEFT JOIN foo AS __sa_foo ON __sa_foo.barid = bar.id WHERE __sa_foo.title = :uniq_7)'',
          bound = [(''uniq_7'', JStr ''a'')]\<rparr>"
  by (simp add: buildRemove_def builder_eval where_eval fixture_eval related_field_def
        getRelationFieldData_def addJoin_def ParsedJoin_make_def isCompanion_def)

lemma single_element_list_example:
  "(case buildSelect fooBarDatabase (\<lambda>i. 7 + i) 0
     (noFindOptions\<lparr>fo_where := Some [(''title'', JObj [(''$in'', JArr [JStr ''a''])])]\<rparr>)
    of Inl e \<Rightarrow> Inl e | Inr q \<Rightarrow> Inr (drop 78 (selectQuery q), select_bound q))
   = Inr (''FROM foo  WHERE foo.title = :uniq_7 '', [(''uniq_7'', JStr ''a'')])"
  "(case buildSelect fooBarDatabase (\<lambda>i. 7 + i) 0
     (noFindOptions\<lparr>fo_where := Some [(''title'', JObj [(''$notin'', JArr [JStr ''a''])])]\<rparr>)
    of Inl e \<Rightarrow> Inl e | Inr q \<Rightarrow> Inr (drop 78 (selectQuery q), select_bound q))
   = Inr (''FROM foo  WHERE foo.title <> :uniq_7 '', [(''uniq_7'', JStr ''a'')])"
  by (simp_all add: buildSelect_def select_builder_def buildConstraints_def buildSort_def buildJoins_def
        select_text_def makeColumnListForModel_def noFindOptions_def builder_eval where_eval fixture_eval)

section \<open>Properties: UPDATE and DELETE\<close>

lemma update_example:
  "buildUpdate fooBarDatabase (\<lambda>i. 7 + i) 0
     \<lparr>uo_where = Some [(''title'', JStr ''x'')], uo_set = [(''title'', JStr ''y'')]\<rparr>
   = Inr \<lparr>query = ''UPDATE foo SET title = :uniq_8 WHERE foo.title = :uniq_7'',
          bound = [(''uniq_7'', JStr ''x''), (''uniq_8'', JStr ''y'')]\<rparr>"
  by (simp add: buildUpdate_def builder_eval where_eval fixture_eval)

text \<open>
  C8. When the set map of the update options has no keys, \<open>Database.update\<close> hands no
  statement to the connection and returns the database as it was, whatever the where
  criteria are: it fulfils when the criteria compile and rejects with their
  compilation error otherwise.
\<close>

theorem empty_set_update_is_noop:
  "uo_set options = [] \<longrightarrow>
     snd (Database_update db random model options) = db
     \<and> fst (Database_update db random model options)
         = (case buildWhere db (new_QueryBuilder random model (uo_where options)) of
              Inl e \<Rightarrow> Inl e
            | Inr qb \<Rightarrow> Inr ())"
  by (simp add: Database_update_def buildUpdate_def split: sum.splits)


theorem empty_set_update_is_noop_witness:
  "uo_set \<lparr>uo_where = Some [(''title'', JStr ''x'')], uo_set = []\<rparr> = []
   \<and> Database_update connectedFooBar (\<lambda>i. 7 + i) 0 \<lparr>uo_where = Some [(''title'', JStr ''x'')], uo_set = []\<rparr>
       = (Inr (), connectedFooBar)
   \<and> Database_update connectedFooBar (\<lambda>i. 7 + i) 0 \<lparr>uo_where = Some [(''nosuch'', JNum 1)], uo_set = []\<rparr>
       = (Inl (NoFieldNamed ''nosuch''), connectedFooBar)"
  using empty_set_update_is_noop
          [of "\<lparr>uo_where = Some [(''title'', JStr ''x'')], uo_set = []\<rparr>" connectedFooBar "\<lambda>i. 7 + i" 0]
        empty_set_update_is_noop
          [of "\<lparr>uo_where = Some [(''nosuch'', JNum 1)], uo_set = []\<rparr>" connectedFooBar "\<lambda>i. 7 + i" 0]
  by (simp add: prod_eq_iff builder_eval where_eval fixture_eval)


text \<open>
  C1 (what the code does instead). For every model of a connected database,
  \<open>model.remove({})\<close> and \<open>model.remove({ where: {} })\<close> do not fail: the guard of
  \<open>_buildRemove\<close> tests \<open>!this._whereClause\<close> and \<open>this._whereClause.length === 0\<close> on an
  object, so neither holds; the statement \<open>DELETE FROM <table>\<close> with an empty WHERE part
  is compiled and run, which removes every row, as \<open>removeAll\<close> does.
\<close>

theorem remove_without_criteria_deletes_all:
  "(ro_where options = None \<or> ro_where options = Some []) \<and> db_connection db = Some conn \<longrightarrow>
     Database_remove db random model options
       = (Inr (),
          db\<lparr>db_connection :=
               Some (conn\<lparr>statements := statements conn @
                       [(''DELETE FROM '' @ model_name (the_model db model) @ '' '', Named [], Run)]\<rparr>)\<rparr>)"
proof (intro impI, elim conjE disjE)
  assume "ro_where options = None" "db_connection db = Some conn"
  then show "Database_remove db random model options
       = (Inr (),
          db\<lparr>db_connection :=
               Some (conn\<lparr>statements := statements conn @
                       [(''DELETE FROM '' @ model_name (the_model db model) @ '' '', Named [], Run)]\<rparr>)\<rparr>)"
    by (simp add: Database_remove_def buildRemove_def run_def new_QueryBuilder_def buildWhere_def
        makeWhere_def Let_def)
next
  assume "ro_where options = Some []" "db_connection db = Some conn"
  then show "Database_remove db random model options
       = (Inr (),
          db\<lparr>db_connection :=
               Some (conn\<lparr>statements := statements conn @
                       [(''DELETE FROM '' @ model_name (the_model db model) @ '' '', Named [], Run)]\<rparr>)\<rparr>)"
    by (simp add: Database_remove_def buildRemove_def run_def new_QueryBuilder_def buildWhere_def
        makeWhere_def Let_def)
qed

theorem remove_without_criteria_deletes_all_witness:
  "db_connection connectedFooBar = Some \<lparr>statements = []\<rparr>
   \<and> Database_remove connectedFooBar (\<lambda>i. 7 + i) 0 \<lparr>ro_where = None\<rparr>
     = (Inr (), connectedFooBar\<lparr>db_connection :=
                  Some \<lparr>statements = [(''DELETE FROM foo '', Named [], Run)]\<rparr>\<rparr>)
   \<and> Database_remove connectedFooBar (\<lambda>i. 7 + i) 0 \<lparr>ro_where = Some []\<rparr>
     = (Inr (), connectedFooBar\<lparr>db_connection :=
                  Some \<lparr>statements = [(''DELETE FROM foo '', Named [], Run)]\<rparr>\<rparr>)
   \<and> Database_removeAll connectedFooBar 0
     = (Inr (), connectedFooBar\<lparr>db_connection :=
                  Some \<lparr>statements = [(''DELETE FROM foo'', NoBindings, Run)]\<rparr>\<rparr>)"
  using remove_without_criteria_deletes_all
          [of "\<lparr>ro_where = None\<rparr>" connectedFooBar "\<lparr>statements = []\<rparr>" "\<lambda>i. 7 + i" 0]
        remove_without_criteria_deletes_all
          [of "\<lparr>ro_where = Some []\<rparr>" connectedFooBar "\<lparr>statements = []\<rparr>" "\<lambda>i. 7 + i" 0]
  by (simp add: Database_removeAll_def run_def fixture_eval)

section \<open>Properties: SELECT\<close>

lemma addConstraintQ_constraints:
  "qb_constraints (addConstraintQ qb c) = Some ((case qb_constraints qb of None \<Rightarrow> [] | Some cs \<Rightarrow> cs) @ [c])"
  by (simp add: addConstraintQ_def split: option.splits)

lemma buildConstraints_offset:
  "fo_offset options = Some n \<Longrightarrow>
     (''OFFSET '' @ int_to_string n) \<in> set (constraint_list (buildConstraints qb options))"
  by (simp add: buildConstraints_def constraint_list_def addConstraintQ_constraints Let_def
        split: option.splits)

lemma buildSort_constraints:
  "buildSort db qb options = Inr qb' \<Longrightarrow> set (constraint_list qb) \<subseteq> set (constraint_list qb')"
  by (auto simp: buildSort_def Let_def constraint_list_def addConstraintQ_constraints
           split: sum.splits if_splits option.splits)

lemma buildJoins_loop_constraints:
  "buildJoins_loop db qb js = Inr qb' \<Longrightarrow> qb_constraints qb' = qb_constraints qb"
  by (induction js arbitrary: qb) (auto simp: addJoin_def addExtraColumns_def split: sum.splits)

lemma buildJoins_constraints:
  "buildJoins db qb options = Inr qb' \<Longrightarrow> constraint_list qb' = constraint_list qb"
  by (auto simp: buildJoins_def constraint_list_def buildJoins_loop_constraints split: option.splits)

lemma count_query_example:
  "buildSelect fooBarDatabase random 0
     (noFindOptions\<lparr>fo_limit := Some 10, fo_offset := Some 5, fo_fetchTotalCount := Some True\<rparr>)
   = Inr \<lparr>selectQuery = select_text fooBarDatabase
             ((new_QueryBuilder random 0 None)\<lparr>qb_constraints := Some [''LIMIT 10'', ''OFFSET 5'']\<rparr>),
          select_bound = [],
          countQuery = Some ''SELECT COUNT(*) FROM foo   OFFSET 5''\<rparr>"
  by (simp add: buildSelect_def select_builder_def buildConstraints_def buildSort_def buildJoins_def
        count_text_def countConstraints_def addConstraintQ_def noFindOptions_def startsWith_def
        int_to_string_def nat_to_string.simps digit_char_def builder_eval fixture_eval)

text \<open>
  C2 (what the code does instead). For every model and every find options with
  \<open>fetchTotalCount: true\<close> and an offset, whenever the query builds, the count query
  is assembled from the same builder as the select query (same joins, same WHERE), its
  constraints are those of the builder that do not start with \<open>LIMIT\<close>, and the
  \<open>OFFSET\<close> constraint is among them: the filter of \<open>_buildSelect\<close> misses it.
\<close>

theorem count_query_keeps_offset:
  "fo_fetchTotalCount options = Some True \<and> fo_offset options = Some n
   \<and> buildSelect db random model options = Inr q \<longrightarrow>
     (\<exists>qb. select_builder db random model options = Inr qb
          \<and> selectQuery q = select_text db qb
          \<and> countQuery q = Some (count_text db qb)
          \<and> (''OFFSET '' @ int_to_string n)
               \<in> set (filter (\<lambda>constr. \<not> startsWith constr ''LIMIT'') (constraint_list qb))
          \<and> countConstraints qb
               = join '' '' (filter (\<lambda>constr. \<not> startsWith constr ''LIMIT'') (constraint_list qb)))"
proof (intro impI)
  assume a: "fo_fetchTotalCount options = Some True \<and> fo_offset options = Some n
             \<and> buildSelect db random model options = Inr q"
  then obtain qb where qb: "select_builder db random model options = Inr qb"
    and q: "q = \<lparr>selectQuery = select_text db qb, select_bound = qb_bound qb,
                 countQuery = Some (count_text db qb)\<rparr>"
    by (auto simp: buildSelect_def split: sum.splits)
  from qb obtain qb1 qb3 where
    "buildSort db (buildConstraints qb1 options) options = Inr qb3"
    "buildJoins db qb3 options = Inr qb"
    by (auto simp: select_builder_def split: sum.splits)
  then have "(''OFFSET '' @ int_to_string n) \<in> set (constraint_list qb)"
    using a buildConstraints_offset [of options n qb1] buildSort_constraints buildJoins_constraints
    by fastforce
  then have "(''OFFSET '' @ int_to_string n)
               \<in> set (filter (\<lambda>constr. \<not> startsWith constr ''LIMIT'') (constraint_list qb))"
    by (simp add: startsWith_def)
  moreover have "countConstraints qb
       = join '' '' (filter (\<lambda>constr. \<not> startsWith constr ''LIMIT'') (constraint_list qb))"
    by (simp add: countConstraints_def constraint_list_def split: option.splits)
  ultimately show "\<exists>qb. select_builder db random model options = Inr qb
          \<and> selectQuery q = select_text db qb
          \<and> countQuery q = Some (count_text db qb)
          \<and> (''OFFSET '' @ int_to_string n)
               \<in> set (filter (\<lambda>constr. \<not> startsWith constr ''LIMIT'') (constraint_list qb))
          \<and> countConstraints qb
               = join '' '' (filter (\<lambda>constr. \<not> startsWith constr ''LIMIT'') (constraint_list qb))"
    using qb q by auto
qed

theorem count_query_keeps_offset_witness:
  "fo_fetchTotalCount (noFindOptions\<lparr>fo_limit := Some 10, fo_offset := Some 5,
                                      fo_fetchTotalCount := Some True\<rparr>) = Some True
   \<and> fo_offset (noFindOptions\<lparr>fo_limit := Some 10, fo_offset := Some 5,
                               fo_fetchTotalCount := Some True\<rparr>) = Some 5
   \<and> (case buildSelect fooBarDatabase (\<lambda>i. 7 + i) 0
              (noFindOptions\<lparr>fo_limit := Some 10, fo_offset := Some 5,
                             fo_fetchTotalCount := Some True\<rparr>) of
         Inl e \<Rightarrow> None
       | Inr q \<Rightarrow> countQuery q)
      = Some ''SELECT COUNT(*) FROM foo   OFFSET 5''"
  using count_query_keeps_offset
          [of "noFindOptions\<lparr>fo_limit := Some 10, fo_offset := Some 5, fo_fetchTotalCount := Some True\<rparr>"
              5 fooBarDatabase "\<lambda>i. 7 + i" 0]
        count_query_example [of "\<lambda>i. 7 + i"]
  by (simp add: noFindOptions_def)

end
